theory Spec2Isabelle
  imports Main
begin

section \<open>JavaScript values and the driver's bind check\<close>

text \<open>
  A field of a JSON request body is absent (\<open>undefined\<close> after destructuring), \<open>null\<close>,
  a boolean, a number or a string. Nested objects and arrays are not modelled. A table
  cell holds the value that was bound to it; the conversions a column type would apply
  to a value of another type are a matter of the schema, which is not part of the
  sources, and are not modelled.
\<close>

datatype jsval = JUndefined | JNull | JBool bool | JNum int | JStr string

text \<open>The truthiness test of \<open>x ? a : b\<close>, \<open>!x\<close> and \<open>a && b\<close>.\<close>

fun truthy :: "jsval \<Rightarrow> bool" where
  "truthy JUndefined = False"
| "truthy JNull = False"
| "truthy (JBool b) = b"
| "truthy (JNum n) = (n \<noteq> 0)"
| "truthy (JStr s) = (s \<noteq> [])"

text \<open>Errors thrown inside a handler's \<open>try\<close> block.\<close>

datatype exn =
    Bind_parameters_must_not_contain_undefined
  | Illegal_arguments
  | Upload_rejected

text \<open>
  \<open>pool.execute(sql, params)\<close> throws before it sends anything when a bind parameter is
  \<open>undefined\<close> (the profile route turns an absent bio into \<open>null\<close> for this reason).
\<close>

definition execute :: "jsval list \<Rightarrow> exn + unit" where
  "execute params =
     (if JUndefined \<in> set params then Inl Bind_parameters_must_not_contain_undefined
      else Inr ())"

text \<open>SQL equality of a cell with a bound value: a comparison with NULL matches no row.\<close>

definition sql_eq :: "jsval \<Rightarrow> jsval \<Rightarrow> bool" where
  "sql_eq cell v = (cell \<noteq> JNull \<and> v \<noteq> JNull \<and> cell = v)"

section \<open>Tables and the state of the system\<close>

record user_row =
  user_id :: nat
  user_name :: jsval
  user_email :: jsval
  user_password :: string
  user_role :: jsval
  user_bio :: jsval
  user_avatar_url :: jsval

record job_row =
  job_id :: nat
  job_client_id :: nat
  job_title :: jsval
  job_description :: jsval
  job_budget :: jsval
  job_status :: string
  job_freelancer_id :: "nat option"

record message_row =
  message_id :: nat
  message_job_id :: nat
  message_sender_id :: nat
  message_receiver_id :: nat
  message_content :: jsval

text \<open>Lines written to the console, one constructor for each call in the sources.\<close>

datatype log_line =
    Email_de_registro_enviado_para jsval
  | Erro_ao_enviar_email_Brevo
  | Erro_no_Registro exn
  | Erro_no_Login exn
  | Erro_ao_criar_job exn
  | Console_error exn

text \<open>
  The state is the three tables, the next key of each table, the console and the
  buffers handed to the binary storage.
\<close>

text \<open>
  Modelled from the spec: the table declarations are not part of the sources. Keys are
  system-assigned and unique (section 3): a counter per table gives \<open>insertId\<close>.
\<close>

record state =
  users :: "user_row list"
  jobs :: "job_row list"
  messages :: "message_row list"
  next_user_id :: nat
  next_job_id :: nat
  next_message_id :: nat
  console :: "log_line list"
  cloudinary :: "string list"

definition init :: state where
  "init = \<lparr>users = [], jobs = [], messages = [], next_user_id = 1, next_job_id = 1,
     next_message_id = 1, console = [], cloudinary = []\<rparr>"

text \<open>
  Modelled from the spec: the columns an INSERT does not name get the defaults of the
  table declarations, which are not part of the sources. A new user has no bio and no
  avatar (section 3: optional fields); a new job is in state \<open>open\<close> and has no freelancer
  (sections 3 and 4.3).
\<close>

definition new_user :: "nat \<Rightarrow> jsval \<Rightarrow> jsval \<Rightarrow> string \<Rightarrow> jsval \<Rightarrow> user_row" where
  "new_user insertId name email password role =
     \<lparr>user_id = insertId, user_name = name, user_email = email, user_password = password,
      user_role = role, user_bio = JNull, user_avatar_url = JNull\<rparr>"

definition new_job :: "nat \<Rightarrow> nat \<Rightarrow> jsval \<Rightarrow> jsval \<Rightarrow> jsval \<Rightarrow> job_row" where
  "new_job insertId client_id title description budget =
     \<lparr>job_id = insertId, job_client_id = client_id, job_title = title,
      job_description = description, job_budget = budget, job_status = ''open'',
      job_freelancer_id = None\<rparr>"

section \<open>Responses\<close>

text \<open>The literal texts of the responses, one constructor for each.\<close>

datatype phrase =
    Email_ja_cadastrado
  | Usuario_criado_com_sucesso
  | Erro_no_servidor_durante_o_registro
  | Usuario_nao_encontrado
  | Senha_incorreta
  | Erro_no_servidor_durante_o_login
  | Acesso_negado
  | Token_invalido
  | Nenhum_dado_fornecido_para_atualizacao
  | Perfil_atualizado_com_sucesso
  | Erro_ao_atualizar_perfil
  | Apenas_clientes_podem_postar_jobs
  | Job_publicado
  | Erro_ao_criar_job_text
  | Apenas_freelancers_podem_aceitar_jobs
  | Job_nao_disponivel
  | Job_aceito_com_sucesso_Chat_liberado
  | Erro_ao_processar_contratacao
  | Permissao_negada
  | O_job_ainda_nao_foi_aceito_por_um_freelancer
  | Mensagem_enviada
  | Erro_ao_enviar_mensagem

record public_user =
  pu_id :: nat
  pu_name :: jsval
  pu_role :: jsval
  pu_avatar :: jsval

text \<open>The JSON bodies: \<open>{error}\<close>, \<open>{message}\<close>, \<open>{message, userId}\<close>, \<open>{message, jobId}\<close>,
  \<open>{message, avatar}\<close> and \<open>{token, user}\<close>.\<close>

datatype body =
    Error phrase
  | Message phrase
  | Message_userId phrase nat
  | Message_jobId phrase nat
  | Message_avatar phrase jsval
  | Token_user string public_user

text \<open>\<open>res.status(n).json(b)\<close>; \<open>res.json(b)\<close> is status 200.\<close>

datatype response = Reply nat body

text \<open>The decoded token that the middleware leaves in \<open>req.user\<close>.\<close>

record claims =
  tok_id :: nat
  tok_role :: jsval

section \<open>Job lifecycle\<close>

text \<open>\<open>POST /jobs\<close>.\<close>

definition createJob :: "claims \<Rightarrow> jsval \<Rightarrow> jsval \<Rightarrow> jsval \<Rightarrow> state \<Rightarrow> response \<times> state" where
  "createJob user title description budget st =
     (if tok_role user \<noteq> JStr ''client''
      then (Reply 403 (Error Apenas_clientes_podem_postar_jobs), st)
      else
        let client_id = tok_id user in
        case execute [JNum (int client_id), title, description, budget] of
          Inl error \<Rightarrow>
            (Reply 500 (Error Erro_ao_criar_job_text),
             st\<lparr>console := console st @ [Erro_ao_criar_job error]\<rparr>)
        | Inr _ \<Rightarrow>
            (Reply 201 (Message_jobId Job_publicado (next_job_id st)),
             st\<lparr>jobs := jobs st @
                   [new_job (next_job_id st) client_id title description budget],
                 next_job_id := Suc (next_job_id st)\<rparr>))"

text \<open>
  \<open>POST /jobs/:id/hire\<close>. The route parameter is taken as the key it denotes. The
  SELECT keeps the rows with that key in state \<open>open\<close>; the UPDATE rewrites every row
  with that key. Both bind parameters are defined, so nothing in the \<open>try\<close> block throws
  and the \<open>catch\<close> is not reached; faults of the connection are not modelled, here and
  in the other handlers.
\<close>

definition hire_update :: "nat \<Rightarrow> nat \<Rightarrow> job_row \<Rightarrow> job_row" where
  "hire_update freelancerId jobId j =
     (if job_id j = jobId
      then j\<lparr>job_freelancer_id := Some freelancerId, job_status := ''in_progress''\<rparr>
      else j)"

definition hire :: "claims \<Rightarrow> nat \<Rightarrow> state \<Rightarrow> response \<times> state" where
  "hire user jobId st =
     (let freelancerId = tok_id user in
      if tok_role user \<noteq> JStr ''freelancer''
      then (Reply 403 (Error Apenas_freelancers_podem_aceitar_jobs), st)
      else
        let rows = filter (\<lambda>j. job_id j = jobId \<and> job_status j = ''open'') (jobs st) in
        if length rows = 0
        then (Reply 404 (Error Job_nao_disponivel), st)
        else (Reply 200 (Message Job_aceito_com_sucesso_Chat_liberado),
              st\<lparr>jobs := map (hire_update freelancerId jobId) (jobs st)\<rparr>))"

section \<open>Tokens and the access-control middleware\<close>

text \<open>
  Modelled from the spec: the token library is not part of the sources. Following
  sections 2 and 6, a token is an opaque signed blob that carries \<open>{id, role}\<close>, is
  verified with the server-held secret and expires a fixed time after it was issued.
  The blob is a string; \<open>encode\<close> and \<open>decode\<close> stand for the library's serialisation
  and parsing, and the clock counts seconds. The secret is the configured one; a server
  started without it is not covered.
\<close>

record jwt =
  jwt_payload :: claims
  jwt_iat :: nat
  jwt_exp :: nat
  jwt_key :: string

datatype jwt_error = JsonWebTokenError | TokenExpiredError

definition jwt_sign :: "(jwt \<Rightarrow> string) \<Rightarrow> claims \<Rightarrow> string \<Rightarrow> nat \<Rightarrow> nat \<Rightarrow> string" where
  "jwt_sign encode payload secret expiresIn now =
     encode \<lparr>jwt_payload = payload, jwt_iat = now, jwt_exp = now + expiresIn, jwt_key = secret\<rparr>"

definition jwt_verify :: "(string \<Rightarrow> jwt option) \<Rightarrow> string \<Rightarrow> string \<Rightarrow> nat \<Rightarrow> jwt_error + claims" where
  "jwt_verify decode token secret now =
     (case decode token of
        None \<Rightarrow> Inl JsonWebTokenError
      | Some t \<Rightarrow>
          if jwt_key t \<noteq> secret then Inl JsonWebTokenError
          else if jwt_exp t \<le> now then Inl TokenExpiredError
          else Inr (jwt_payload t))"

text \<open>\<open>s.split(c)\<close> for a separator of one character: one piece more than separators.\<close>

fun split_js :: "char \<Rightarrow> string \<Rightarrow> string list" where
  "split_js c [] = [[]]"
| "split_js c (x # xs) =
     (if x = c then [] # split_js c xs
      else (case split_js c xs of w # ws \<Rightarrow> (x # w) # ws | [] \<Rightarrow> [[x]]))"

text \<open>
  \<open>authHeader && authHeader.split(' ')[1]\<close>: \<open>None\<close> is \<open>undefined\<close>. An absent header
  gives \<open>undefined\<close>, an empty one gives itself, any other gives the piece at index 1.
\<close>

definition token_of :: "string option \<Rightarrow> string option" where
  "token_of authHeader =
     (case authHeader of
        None \<Rightarrow> None
      | Some h \<Rightarrow>
          if h = [] then Some []
          else (let pieces = split_js CHR '' '' h
                in if 1 < length pieces then Some (pieces ! 1) else None))"

text \<open>\<open>authenticateToken\<close>: a response, or \<open>next()\<close> with the decoded token in \<open>req.user\<close>.\<close>

definition authenticateToken ::
    "(string \<Rightarrow> jwt option) \<Rightarrow> string \<Rightarrow> nat \<Rightarrow> string option \<Rightarrow> response + claims" where
  "authenticateToken decode JWT_SECRET now authHeader =
     (case token_of authHeader of
        None \<Rightarrow> Inl (Reply 401 (Error Acesso_negado))
      | Some token \<Rightarrow>
          if token = [] then Inl (Reply 401 (Error Acesso_negado))
          else (case jwt_verify decode token JWT_SECRET now of
                  Inl err \<Rightarrow> Inl (Reply 403 (Error Token_invalido))
                | Inr user \<Rightarrow> Inr user))"

text \<open>A route registered as \<open>app.post(path, authenticateToken, handler)\<close>.\<close>

definition protected_route ::
    "(string \<Rightarrow> jwt option) \<Rightarrow> string \<Rightarrow> nat \<Rightarrow> string option \<Rightarrow>
     (claims \<Rightarrow> state \<Rightarrow> response \<times> state) \<Rightarrow> state \<Rightarrow> response \<times> state" where
  "protected_route decode JWT_SECRET now authHeader handler st =
     (case authenticateToken decode JWT_SECRET now authHeader of
        Inl response \<Rightarrow> (response, st)
      | Inr user \<Rightarrow> handler user st)"

section \<open>Registration and login\<close>

text \<open>
  Modelled from the spec: the password hasher is an external primitive (section 2),
  here the parameters \<open>hasher\<close> (password and cost to hash; the salt is the library's)
  and \<open>matches\<close> (password against hash). The library rejects an argument that is not
  a string.
\<close>

definition bcrypt_hash :: "(string \<Rightarrow> nat \<Rightarrow> string) \<Rightarrow> jsval \<Rightarrow> nat \<Rightarrow> exn + string" where
  "bcrypt_hash hasher s rounds =
     (case s of JStr p \<Rightarrow> Inr (hasher p rounds) | _ \<Rightarrow> Inl Illegal_arguments)"

definition bcrypt_compare :: "(string \<Rightarrow> string \<Rightarrow> bool) \<Rightarrow> jsval \<Rightarrow> string \<Rightarrow> exn + bool" where
  "bcrypt_compare matches s hash =
     (case s of JStr p \<Rightarrow> Inr (matches p hash) | _ \<Rightarrow> Inl Illegal_arguments)"

text \<open>
  \<open>sendEmailBrevo\<close>: the outcome of the HTTP call is the environment's. Either way the
  function returns; the request it sends is not part of the state.
\<close>

datatype axios_result = Resolved jsval | Rejected

definition sendEmailBrevo :: "axios_result \<Rightarrow> jsval \<Rightarrow> jsval \<Rightarrow> state \<Rightarrow> jsval \<times> state" where
  "sendEmailBrevo post toName toEmail st =
     (case post of
        Resolved data \<Rightarrow>
          (data, st\<lparr>console := console st @ [Email_de_registro_enviado_para toEmail]\<rparr>)
      | Rejected \<Rightarrow>
          (JUndefined, st\<lparr>console := console st @ [Erro_ao_enviar_email_Brevo]\<rparr>))"

text \<open>\<open>POST /register\<close>: the \<open>try\<close> block, then the handler with its \<open>catch\<close>.\<close>

definition register_try ::
    "(string \<Rightarrow> nat \<Rightarrow> string) \<Rightarrow> axios_result \<Rightarrow> jsval \<Rightarrow> jsval \<Rightarrow> jsval \<Rightarrow> jsval \<Rightarrow> state
     \<Rightarrow> (exn + response) \<times> state" where
  "register_try hasher post name email password role st =
     (case execute [email] of
        Inl error \<Rightarrow> (Inl error, st)
      | Inr _ \<Rightarrow>
          let rows = filter (\<lambda>u. sql_eq (user_email u) email) (users st) in
          if length rows > 0 then (Inr (Reply 400 (Error Email_ja_cadastrado)), st)
          else
            case bcrypt_hash hasher password 10 of
              Inl error \<Rightarrow> (Inl error, st)
            | Inr hashedPassword \<Rightarrow>
                let userRole = (if truthy role then role else JStr ''freelancer'') in
                case execute [name, email, JStr hashedPassword, userRole] of
                  Inl error \<Rightarrow> (Inl error, st)
                | Inr _ \<Rightarrow>
                    let insertId = next_user_id st;
                        st1 = st\<lparr>users := users st @
                                 [new_user insertId name email hashedPassword userRole],
                               next_user_id := Suc insertId\<rparr>;
                        st2 = snd (sendEmailBrevo post name email st1)
                    in (Inr (Reply 201 (Message_userId Usuario_criado_com_sucesso insertId)),
                        st2))"

definition register ::
    "(string \<Rightarrow> nat \<Rightarrow> string) \<Rightarrow> axios_result \<Rightarrow> jsval \<Rightarrow> jsval \<Rightarrow> jsval \<Rightarrow> jsval \<Rightarrow> state
     \<Rightarrow> response \<times> state" where
  "register hasher post name email password role st =
     (case register_try hasher post name email password role st of
        (Inl error, st') \<Rightarrow>
          (Reply 500 (Error Erro_no_servidor_durante_o_registro),
           st'\<lparr>console := console st' @ [Erro_no_Registro error]\<rparr>)
      | (Inr response, st') \<Rightarrow> (response, st'))"

text \<open>\<open>POST /login\<close>.\<close>

definition login_try ::
    "(string \<Rightarrow> string \<Rightarrow> bool) \<Rightarrow> (jwt \<Rightarrow> string) \<Rightarrow> string \<Rightarrow> nat \<Rightarrow> jsval \<Rightarrow> jsval \<Rightarrow> state
     \<Rightarrow> (exn + response) \<times> state" where
  "login_try matches encode JWT_SECRET now email password st =
     (case execute [email] of
        Inl error \<Rightarrow> (Inl error, st)
      | Inr _ \<Rightarrow>
          (case filter (\<lambda>u. sql_eq (user_email u) email) (users st) of
             [] \<Rightarrow> (Inr (Reply 400 (Error Usuario_nao_encontrado)), st)
           | user # _ \<Rightarrow>
               (case bcrypt_compare matches password (user_password user) of
                  Inl error \<Rightarrow> (Inl error, st)
                | Inr validPassword \<Rightarrow>
                    if \<not> validPassword then (Inr (Reply 400 (Error Senha_incorreta)), st)
                    else
                      let token = jwt_sign encode
                            \<lparr>tok_id = user_id user, tok_role = user_role user\<rparr>
                            JWT_SECRET (24 * 60 * 60) now
                      in (Inr (Reply 200 (Token_user token
                                \<lparr>pu_id = user_id user, pu_name = user_name user,
                                 pu_role = user_role user,
                                 pu_avatar = user_avatar_url user\<rparr>)), st))))"

definition login ::
    "(string \<Rightarrow> string \<Rightarrow> bool) \<Rightarrow> (jwt \<Rightarrow> string) \<Rightarrow> string \<Rightarrow> nat \<Rightarrow> jsval \<Rightarrow> jsval \<Rightarrow> state
     \<Rightarrow> response \<times> state" where
  "login matches encode JWT_SECRET now email password st =
     (case login_try matches encode JWT_SECRET now email password st of
        (Inl error, st') \<Rightarrow>
          (Reply 500 (Error Erro_no_servidor_durante_o_login),
           st'\<lparr>console := console st' @ [Erro_no_Login error]\<rparr>)
      | (Inr response, st') \<Rightarrow> (response, st'))"

section \<open>Profile\<close>

text \<open>
  \<open>uploadToCloudinary\<close>: the buffer goes to the binary storage, whose answer
  (\<open>upload_stream\<close>) is an error or the \<open>secure_url\<close> of the result.
\<close>

definition uploadToCloudinary ::
    "(string \<Rightarrow> exn + jsval) \<Rightarrow> string \<Rightarrow> state \<Rightarrow> (exn + jsval) \<times> state" where
  "uploadToCloudinary upload_stream fileBuffer st =
     (upload_stream fileBuffer, st\<lparr>cloudinary := cloudinary st @ [fileBuffer]\<rparr>)"

text \<open>
  \<open>PUT /profile\<close>. \<open>file\<close> is \<open>req.file\<close>: the buffer of the uploaded avatar, or
  \<open>None\<close> for \<open>undefined\<close>. The query always sets \<open>bio\<close>, and sets \<open>avatar_url\<close> as well
  when there is a URL.
\<close>

definition profile_try ::
    "(string \<Rightarrow> exn + jsval) \<Rightarrow> claims \<Rightarrow> jsval \<Rightarrow> string option \<Rightarrow> state
     \<Rightarrow> (exn + response) \<times> state" where
  "profile_try upload_stream user bio file st =
     (let userId = tok_id user in
      case (case file of
              None \<Rightarrow> (Inr JNull, st)
            | Some buffer \<Rightarrow> uploadToCloudinary upload_stream buffer st) of
        (Inl error, st1) \<Rightarrow> (Inl error, st1)
      | (Inr avatarUrl, st1) \<Rightarrow>
          let finalBio = (if bio = JStr [] \<or> bio = JUndefined then JNull else bio) in
          if avatarUrl \<noteq> JNull then
            (case execute [finalBio, avatarUrl, JNum (int userId)] of
               Inl error \<Rightarrow> (Inl error, st1)
             | Inr _ \<Rightarrow>
                 (Inr (Reply 200 (Message_avatar Perfil_atualizado_com_sucesso avatarUrl)),
                  st1\<lparr>users := map (\<lambda>u. if user_id u = userId
                                         then u\<lparr>user_bio := finalBio,
                                                user_avatar_url := avatarUrl\<rparr>
                                         else u) (users st1)\<rparr>))
          else if file = None \<and> finalBio = JNull then
            (Inr (Reply 200 (Message_avatar Nenhum_dado_fornecido_para_atualizacao JNull)),
             st1)
          else
            (case execute [finalBio, JNum (int userId)] of
               Inl error \<Rightarrow> (Inl error, st1)
             | Inr _ \<Rightarrow>
                 (Inr (Reply 200 (Message_avatar Perfil_atualizado_com_sucesso avatarUrl)),
                  st1\<lparr>users := map (\<lambda>u. if user_id u = userId
                                         then u\<lparr>user_bio := finalBio\<rparr>
                                         else u) (users st1)\<rparr>)))"

definition updateProfile ::
    "(string \<Rightarrow> exn + jsval) \<Rightarrow> claims \<Rightarrow> jsval \<Rightarrow> string option \<Rightarrow> state
     \<Rightarrow> response \<times> state" where
  "updateProfile upload_stream user bio file st =
     (case profile_try upload_stream user bio file st of
        (Inl error, st') \<Rightarrow>
          (Reply 500 (Error Erro_ao_atualizar_perfil),
           st'\<lparr>console := console st' @ [Console_error error]\<rparr>)
      | (Inr response, st') \<Rightarrow> (response, st'))"

section \<open>Messaging\<close>

text \<open>
  \<open>POST /messages\<close>. The job key of the body is taken as the key it denotes;
  \<open>receiverId\<close> is read from the body and not used afterwards. \<open>!finalReceiverId\<close>
  holds for NULL and for 0.
\<close>

definition sendMessage_try ::
    "claims \<Rightarrow> nat \<Rightarrow> jsval \<Rightarrow> jsval \<Rightarrow> state \<Rightarrow> (exn + response) \<times> state" where
  "sendMessage_try user jobId content receiverId st =
     (let senderId = tok_id user in
      case filter (\<lambda>j. job_id j = jobId \<and>
                       (job_client_id j = senderId \<or> job_freelancer_id j = Some senderId))
             (jobs st) of
        [] \<Rightarrow> (Inr (Reply 403 (Error Permissao_negada)), st)
      | job0 # _ \<Rightarrow>
          let finalReceiverId =
                (if senderId = job_client_id job0 then job_freelancer_id job0
                 else Some (job_client_id job0)) in
          case finalReceiverId of
            None \<Rightarrow>
              (Inr (Reply 400 (Error O_job_ainda_nao_foi_aceito_por_um_freelancer)), st)
          | Some receiver \<Rightarrow>
              if receiver = 0
              then (Inr (Reply 400 (Error O_job_ainda_nao_foi_aceito_por_um_freelancer)), st)
              else
                (case execute [JNum (int jobId), JNum (int senderId), JNum (int receiver),
                               content] of
                   Inl error \<Rightarrow> (Inl error, st)
                 | Inr _ \<Rightarrow>
                     (Inr (Reply 201 (Message Mensagem_enviada)),
                      st\<lparr>messages := messages st @
                            [\<lparr>message_id = next_message_id st, message_job_id = jobId,
                              message_sender_id = senderId, message_receiver_id = receiver,
                              message_content = content\<rparr>],
                          next_message_id := Suc (next_message_id st)\<rparr>)))"

definition sendMessage ::
    "claims \<Rightarrow> nat \<Rightarrow> jsval \<Rightarrow> jsval \<Rightarrow> state \<Rightarrow> response \<times> state" where
  "sendMessage user jobId content receiverId st =
     (case sendMessage_try user jobId content receiverId st of
        (Inl error, st') \<Rightarrow>
          (Reply 500 (Error Erro_ao_enviar_mensagem),
           st'\<lparr>console := console st' @ [Console_error error]\<rparr>)
      | (Inr response, st') \<Rightarrow> (response, st'))"

section \<open>The sequential step relation of the job lifecycle\<close>

text \<open>One request to \<open>POST /jobs\<close> or to \<open>POST /jobs/:id/hire\<close>, by any caller, run to its end.\<close>

inductive step :: "state \<Rightarrow> state \<Rightarrow> bool" where
  step_createJob: "step st (snd (createJob user title description budget st))"
| step_hire: "step st (snd (hire user jobId st))"

inductive reachable :: "state \<Rightarrow> bool" where
  reachable_init: "reachable init"
| reachable_step: "reachable st \<Longrightarrow> step st st' \<Longrightarrow> reachable st'"

text \<open>The invariant of the jobs table: keys are unique and below the counter, and a row is
  either open with no freelancer or in progress with one.\<close>

definition job_ok :: "job_row \<Rightarrow> bool" where
  "job_ok j = ((job_status j = ''open'' \<and> job_freelancer_id j = None) \<or>
               (job_status j = ''in_progress'' \<and> job_freelancer_id j \<noteq> None))"

definition jobs_inv :: "state \<Rightarrow> bool" where
  "jobs_inv st = (distinct (map job_id (jobs st)) \<and>
                  (\<forall>j \<in> set (jobs st). job_id j < next_job_id st \<and> job_ok j))"

section \<open>Example states\<close>

text \<open>Client 1 posts a job; freelancer 2 takes it.\<close>

definition job1 :: state where
  "job1 = snd (createJob \<lparr>tok_id = 1, tok_role = JStr ''client''\<rparr>
                 (JStr ''logo'') (JStr ''a logo'') (JNum 50) init)"

definition hired1 :: state where
  "hired1 = snd (hire \<lparr>tok_id = 2, tok_role = JStr ''freelancer''\<rparr> 1 job1)"

text \<open>Ana registers without a role and with the password \<open>pw\<close>.\<close>

definition hasherA :: "string \<Rightarrow> nat \<Rightarrow> string" where
  "hasherA p rounds = CHR ''#'' # p"

definition matchesA :: "string \<Rightarrow> string \<Rightarrow> bool" where
  "matchesA p h = (h = CHR ''#'' # p)"

definition registered1 :: state where
  "registered1 = snd (register hasherA (Resolved JNull) (JStr ''Ana'') (JStr ''ana@x.org'')
                        (JStr ''pw'') JUndefined init)"

text \<open>The token issued to her at second 100, and a serialisation that knows this token.\<close>

definition tokenA :: jwt where
  "tokenA = \<lparr>jwt_payload = \<lparr>tok_id = 1, tok_role = JStr ''freelancer''\<rparr>, jwt_iat = 100,
             jwt_exp = 100 + 86400, jwt_key = ''s3cret''\<rparr>"

definition encodeA :: "jwt \<Rightarrow> string" where
  "encodeA t = (if t = tokenA then ''abc'' else ''other'')"

definition decodeA :: "string \<Rightarrow> jwt option" where
  "decodeA s = (if s = ''abc'' then Some tokenA else None)"

text \<open>Her profile gets a bio; the storage answers every upload with the same URL.\<close>

definition uploadA :: "string \<Rightarrow> exn + jsval" where
  "uploadA buffer = Inr (JStr ''https://cdn/a.png'')"

definition profiled1 :: state where
  "profiled1 = snd (updateProfile uploadA \<lparr>tok_id = 1, tok_role = JStr ''freelancer''\<rparr>
                      (JStr ''designer'') None registered1)"

section \<open>Hiring\<close>

lemma no_open_row:
  "(filter (\<lambda>j. job_id j = jobId \<and> job_status j = ''open'') js = []) =
     (\<not> (\<exists>j \<in> set js. job_id j = jobId \<and> job_status j = ''open''))"
  by (auto simp: filter_empty_conv)

lemma job1_eq: "job1 = init\<lparr>jobs := [\<lparr>job_id = 1, job_client_id = 1, job_title = JStr ''logo'',
                     job_description = JStr ''a logo'', job_budget = JNum 50,
                     job_status = ''open'', job_freelancer_id = None\<rparr>], next_job_id := 2\<rparr>"
  by (simp add: job1_def createJob_def new_job_def execute_def init_def)

text \<open>
  Claim C1. A hire request by a caller whose role is not \<open>freelancer\<close> is answered 403
  (Forbidden) and changes nothing. Otherwise, when no row of the jobs table has the given
  key and state \<open>open\<close> (there is no such job, or it was taken already), it is answered 404
  (NotFoundError) and changes nothing. Otherwise it is answered 200, and the job with that
  key gets the caller as its freelancer and the state \<open>in_progress\<close>; every other row and
  everything else in the state stay as they were.
\<close>

theorem hire_outcomes:
  "(tok_role user \<noteq> JStr ''freelancer'' \<longrightarrow>
      hire user jobId st = (Reply 403 (Error Apenas_freelancers_podem_aceitar_jobs), st)) \<and>
   (tok_role user = JStr ''freelancer'' \<and>
    \<not> (\<exists>j \<in> set (jobs st). job_id j = jobId \<and> job_status j = ''open'') \<longrightarrow>
      hire user jobId st = (Reply 404 (Error Job_nao_disponivel), st)) \<and>
   (tok_role user = JStr ''freelancer'' \<and>
    (\<exists>j \<in> set (jobs st). job_id j = jobId \<and> job_status j = ''open'') \<longrightarrow>
      hire user jobId st =
        (Reply 200 (Message Job_aceito_com_sucesso_Chat_liberado),
         st\<lparr>jobs := map (\<lambda>j. if job_id j = jobId
                               then j\<lparr>job_freelancer_id := Some (tok_id user),
                                      job_status := ''in_progress''\<rparr>
                               else j) (jobs st)\<rparr>))"
  by (auto simp: hire_def Let_def no_open_row hire_update_def fun_eq_iff cong: map_cong)

theorem hire_outcomes_witness:
  "hire \<lparr>tok_id = 2, tok_role = JStr ''client''\<rparr> 1 job1 =
     (Reply 403 (Error Apenas_freelancers_podem_aceitar_jobs), job1) \<and>
   hire \<lparr>tok_id = 2, tok_role = JStr ''freelancer''\<rparr> 7 job1 =
     (Reply 404 (Error Job_nao_disponivel), job1) \<and>
   fst (hire \<lparr>tok_id = 2, tok_role = JStr ''freelancer''\<rparr> 1 job1) =
     Reply 200 (Message Job_aceito_com_sucesso_Chat_liberado) \<and>
   map job_freelancer_id (jobs (snd (hire \<lparr>tok_id = 2, tok_role = JStr ''freelancer''\<rparr> 1 job1))) = [Some 2] \<and>
   map job_status (jobs (snd (hire \<lparr>tok_id = 2, tok_role = JStr ''freelancer''\<rparr> 1 job1))) = [''in_progress'']"
  using hire_outcomes [of "\<lparr>tok_id = 2, tok_role = JStr ''client''\<rparr>" 1 job1]
    hire_outcomes [of "\<lparr>tok_id = 2, tok_role = JStr ''freelancer''\<rparr>" 7 job1]
    hire_outcomes [of "\<lparr>tok_id = 2, tok_role = JStr ''freelancer''\<rparr>" 1 job1]
  by (simp add: job1_eq init_def)

section \<open>The job lifecycle\<close>

lemma jobs_inv_init: "jobs_inv init"
  by (simp add: jobs_inv_def init_def)

lemma jobs_inv_createJob:
  assumes "jobs_inv st"
  shows "jobs_inv (snd (createJob user title description budget st))"
  using assms
  by (auto simp: jobs_inv_def createJob_def new_job_def Let_def job_ok_def split: sum.splits
           dest: less_SucI)

lemma job_id_hire_update: "job_id (hire_update f i j) = job_id j"
  by (simp add: hire_update_def)

lemma jobs_inv_hire:
  assumes "jobs_inv st"
  shows "jobs_inv (snd (hire user jobId st))"
proof -
  have ids: "job_id \<circ> hire_update f jobId = job_id" for f
    by (simp add: fun_eq_iff job_id_hire_update)
  have ok: "job_ok (hire_update f jobId j)" if "job_ok j" for f j
    using that by (auto simp: job_ok_def hire_update_def)
  show ?thesis
    using assms ok
    by (auto simp: jobs_inv_def hire_def Let_def ids job_id_hire_update)
qed

lemma jobs_inv_step: "step st st' \<Longrightarrow> jobs_inv st \<Longrightarrow> jobs_inv st'"
  by (induction rule: step.induct) (simp_all add: jobs_inv_createJob jobs_inv_hire)

lemma reachable_jobs_inv: "reachable st \<Longrightarrow> jobs_inv st"
  by (induction rule: reachable.induct) (simp_all add: jobs_inv_init jobs_inv_step)

lemma same_key_same_row:
  assumes "distinct (map job_id js)" "j \<in> set js" "j' \<in> set js" "job_id j = job_id j'"
  shows "j = j'"
  using assms by (meson distinct_map inj_onD)

lemma in_progress_kept_createJob:
  "j \<in> set (jobs st) \<Longrightarrow> j \<in> set (jobs (snd (createJob user title description budget st)))"
  by (simp add: createJob_def new_job_def Let_def split: sum.splits)

lemma in_progress_kept_hire:
  assumes inv: "jobs_inv st" and j: "j \<in> set (jobs st)" and p: "job_status j = ''in_progress''"
  shows "j \<in> set (jobs (snd (hire user jobId st)))"
proof (cases "fst (hire user jobId st) = Reply 200 (Message Job_aceito_com_sucesso_Chat_liberado)")
  case False
  then have "snd (hire user jobId st) = st"
    by (simp add: hire_def Let_def split: if_splits)
  with j show ?thesis by simp
next
  case True
  then obtain k where k: "k \<in> set (jobs st)" "job_id k = jobId" "job_status k = ''open''"
    by (auto simp: hire_def Let_def filter_empty_conv split: if_splits)
  have "job_id j \<noteq> jobId"
  proof
    assume "job_id j = jobId"
    with inv j k have "j = k"
      by (auto simp: jobs_inv_def intro: same_key_same_row)
    with p k show False by simp
  qed
  then have "hire_update (tok_id user) jobId j = j"
    by (simp add: hire_update_def)
  with j have "j \<in> hire_update (tok_id user) jobId ` set (jobs st)"
    by force
  with True show ?thesis
    by (simp add: hire_def Let_def split: if_splits)
qed

lemma in_progress_kept_step:
  "step st st' \<Longrightarrow> jobs_inv st \<Longrightarrow> j \<in> set (jobs st) \<Longrightarrow> job_status j = ''in_progress'' \<Longrightarrow>
     j \<in> set (jobs st')"
  by (induction rule: step.induct) (simp_all add: in_progress_kept_createJob in_progress_kept_hire)

lemma in_progress_kept_steps:
  "step\<^sup>*\<^sup>* st st' \<Longrightarrow> jobs_inv st \<Longrightarrow> j \<in> set (jobs st) \<Longrightarrow> job_status j = ''in_progress'' \<Longrightarrow>
     jobs_inv st' \<and> j \<in> set (jobs st')"
  by (induction rule: rtranclp_induct) (auto intro: jobs_inv_step in_progress_kept_step)

lemma reachable_steps: "step\<^sup>*\<^sup>* st st' \<Longrightarrow> reachable st \<Longrightarrow> reachable st'"
  by (induction rule: rtranclp_induct) (auto intro: reachable_step)

lemma hire_in_progress_refused:
  assumes inv: "jobs_inv st" and j: "j \<in> set (jobs st)" and p: "job_status j \<noteq> ''open''"
  shows "filter (\<lambda>k. job_id k = job_id j \<and> job_status k = ''open'') (jobs st) = []"
proof -
  have "k = j" if "k \<in> set (jobs st)" "job_id k = job_id j" for k
    using that inv j by (auto simp: jobs_inv_def intro: same_key_same_row)
  with p show ?thesis
    by (auto simp: filter_empty_conv)
qed

lemma hire_success_row:
  assumes "fst (hire user jobId st) = Reply 200 (Message Job_aceito_com_sucesso_Chat_liberado)"
  shows "\<exists>j \<in> set (jobs st). job_id j = jobId \<and> job_status j = ''open'' \<and>
           j\<lparr>job_freelancer_id := Some (tok_id user), job_status := ''in_progress''\<rparr>
             \<in> set (jobs (snd (hire user jobId st)))"
proof -
  from assms obtain k where k: "k \<in> set (jobs st)" "job_id k = jobId" "job_status k = ''open''"
    by (auto simp: hire_def Let_def filter_empty_conv split: if_splits)
  then have "hire_update (tok_id user) jobId k =
      k\<lparr>job_freelancer_id := Some (tok_id user), job_status := ''in_progress''\<rparr>"
    by (simp add: hire_update_def)
  moreover from k have "hire_update (tok_id user) jobId k
      \<in> hire_update (tok_id user) jobId ` set (jobs st)"
    by blast
  moreover from assms have "jobs (snd (hire user jobId st)) =
      map (hire_update (tok_id user) jobId) (jobs st)"
    by (simp add: hire_def Let_def split: if_splits)
  ultimately show ?thesis using k by auto
qed

lemma hired1_eq: "hired1 = init\<lparr>jobs := [\<lparr>job_id = 1, job_client_id = 1, job_title = JStr ''logo'',
                     job_description = JStr ''a logo'', job_budget = JNum 50,
                     job_status = ''in_progress'', job_freelancer_id = Some 2\<rparr>], next_job_id := 2\<rparr>"
  by (simp add: hired1_def job1_eq hire_def hire_update_def init_def)

text \<open>
  Claim C2. In every state reachable by running \<open>createJob\<close> and \<open>hire\<close> requests one
  after another: an open job has no freelancer; a hire that succeeds found the job open
  and leaves it in progress with the caller as its freelancer; a job that is no longer
  open is in progress with a freelancer, and its row stays as it is in every later state
  (the transition is one-directional); a further hire on it is refused, so the transition
  happens at most once; and whatever freelancer a job has in a later state is the one it
  had before: at most one freelancer is ever assigned to a job.
\<close>

theorem job_lifecycle:
  assumes "reachable st"
  shows
   "(\<forall>j \<in> set (jobs st). job_status j = ''open'' \<longrightarrow> job_freelancer_id j = None) \<and>
    (\<forall>user jobId.
        fst (hire user jobId st) = Reply 200 (Message Job_aceito_com_sucesso_Chat_liberado) \<longrightarrow>
        (\<exists>j \<in> set (jobs st). job_id j = jobId \<and> job_status j = ''open'' \<and>
           j\<lparr>job_freelancer_id := Some (tok_id user), job_status := ''in_progress''\<rparr>
             \<in> set (jobs (snd (hire user jobId st))))) \<and>
    (\<forall>st' j. step\<^sup>*\<^sup>* st st' \<and> j \<in> set (jobs st) \<and> job_status j \<noteq> ''open'' \<longrightarrow>
        job_status j = ''in_progress'' \<and> job_freelancer_id j \<noteq> None \<and> j \<in> set (jobs st')) \<and>
    (\<forall>user j. j \<in> set (jobs st) \<and> job_status j \<noteq> ''open'' \<and>
        tok_role user = JStr ''freelancer'' \<longrightarrow>
        hire user (job_id j) st = (Reply 404 (Error Job_nao_disponivel), st)) \<and>
    (\<forall>st' j j' f f'. step\<^sup>*\<^sup>* st st' \<and> j \<in> set (jobs st) \<and> j' \<in> set (jobs st') \<and>
        job_id j = job_id j' \<and> job_freelancer_id j = Some f \<and> job_freelancer_id j' = Some f' \<longrightarrow>
        f = f')"
proof -
  from assms have inv: "jobs_inv st"
    by (rule reachable_jobs_inv)
  have ok: "job_ok j" if "j \<in> set (jobs st)" for j
    using inv that by (simp add: jobs_inv_def)
  have a: "\<forall>j \<in> set (jobs st). job_status j = ''open'' \<longrightarrow> job_freelancer_id j = None"
  proof (intro ballI impI)
    fix j assume "j \<in> set (jobs st)" and "job_status j = ''open''"
    with ok [of j] show "job_freelancer_id j = None"
      by (auto simp: job_ok_def)
  qed
  have b: "\<forall>user jobId.
        fst (hire user jobId st) = Reply 200 (Message Job_aceito_com_sucesso_Chat_liberado) \<longrightarrow>
        (\<exists>j \<in> set (jobs st). job_id j = jobId \<and> job_status j = ''open'' \<and>
           j\<lparr>job_freelancer_id := Some (tok_id user), job_status := ''in_progress''\<rparr>
             \<in> set (jobs (snd (hire user jobId st))))"
    using hire_success_row by blast
  have kept: "job_status j = ''in_progress'' \<and> job_freelancer_id j \<noteq> None \<and> j \<in> set (jobs st')"
    if "step\<^sup>*\<^sup>* st st'" "j \<in> set (jobs st)" "job_status j \<noteq> ''open''" for st' j
  proof -
    from ok [OF that(2)] that(3)
    have p: "job_status j = ''in_progress''" "job_freelancer_id j \<noteq> None"
      by (auto simp: job_ok_def)
    with in_progress_kept_steps [OF that(1) inv that(2)] show ?thesis by simp
  qed
  have d: "hire user (job_id j) st = (Reply 404 (Error Job_nao_disponivel), st)"
    if "j \<in> set (jobs st)" "job_status j \<noteq> ''open''" "tok_role user = JStr ''freelancer''"
    for user j
    using hire_in_progress_refused [OF inv that(1) that(2)] that(3)
    by (simp add: hire_def Let_def)
  have e: "f = f'"
    if "step\<^sup>*\<^sup>* st st'" "j \<in> set (jobs st)" "j' \<in> set (jobs st')" "job_id j = job_id j'"
      "job_freelancer_id j = Some f" "job_freelancer_id j' = Some f'" for st' j j' f f'
  proof -
    from ok [OF that(2)] that(5) have "job_status j \<noteq> ''open''"
      by (auto simp: job_ok_def)
    with kept that have "j \<in> set (jobs st')" by blast
    moreover from reachable_steps [OF that(1) assms] have "jobs_inv st'"
      by (rule reachable_jobs_inv)
    ultimately have "j = j'"
      using that(3,4) by (auto simp: jobs_inv_def intro: same_key_same_row)
    with that(5,6) show ?thesis by simp
  qed
  have c': "\<forall>st' j. step\<^sup>*\<^sup>* st st' \<and> j \<in> set (jobs st) \<and> job_status j \<noteq> ''open'' \<longrightarrow>
        job_status j = ''in_progress'' \<and> job_freelancer_id j \<noteq> None \<and> j \<in> set (jobs st')"
    using kept by (intro allI impI) (elim conjE)
  have d': "\<forall>user j. j \<in> set (jobs st) \<and> job_status j \<noteq> ''open'' \<and>
        tok_role user = JStr ''freelancer'' \<longrightarrow>
        hire user (job_id j) st = (Reply 404 (Error Job_nao_disponivel), st)"
    using d by (intro allI impI) (elim conjE)
  have e': "\<forall>st' j j' f f'. step\<^sup>*\<^sup>* st st' \<and> j \<in> set (jobs st) \<and> j' \<in> set (jobs st') \<and>
        job_id j = job_id j' \<and> job_freelancer_id j = Some f \<and> job_freelancer_id j' = Some f' \<longrightarrow>
        f = f'"
    using e by (intro allI impI) (elim conjE)
  show ?thesis
    by (rule conjI [OF a conjI [OF b conjI [OF c' conjI [OF d' e']]]])
qed

theorem job_lifecycle_witness:
  "reachable hired1 \<and>
   map job_status (jobs hired1) = [''in_progress''] \<and>
   map job_freelancer_id (jobs hired1) = [Some 2] \<and>
   hire \<lparr>tok_id = 3, tok_role = JStr ''freelancer''\<rparr> 1 hired1 =
     (Reply 404 (Error Job_nao_disponivel), hired1) \<and>
   map job_freelancer_id
     (jobs (snd (hire \<lparr>tok_id = 3, tok_role = JStr ''freelancer''\<rparr> 1 hired1))) = [Some 2]"
proof -
  have r: "reachable hired1"
    unfolding hired1_def job1_def
    by (intro reachable_step [OF _ step_hire] reachable_step [OF _ step_createJob] reachable_init)
  have j: "\<lparr>job_id = 1, job_client_id = 1, job_title = JStr ''logo'',
             job_description = JStr ''a logo'', job_budget = JNum 50,
             job_status = ''in_progress'', job_freelancer_id = Some 2\<rparr> \<in> set (jobs hired1)"
    by (simp add: hired1_eq)
  from job_lifecycle [OF r]
  have "\<forall>user j. j \<in> set (jobs hired1) \<and> job_status j \<noteq> ''open'' \<and>
        tok_role user = JStr ''freelancer'' \<longrightarrow>
        hire user (job_id j) hired1 = (Reply 404 (Error Job_nao_disponivel), hired1)"
    by (elim conjE)
  from this [rule_format, of _ "\<lparr>tok_id = 3, tok_role = JStr ''freelancer''\<rparr>", OF conjI [OF j]]
  have "hire \<lparr>tok_id = 3, tok_role = JStr ''freelancer''\<rparr> 1 hired1 =
     (Reply 404 (Error Job_nao_disponivel), hired1)"
    by simp
  with r show ?thesis
    by (simp add: hired1_eq)
qed

section \<open>The middleware\<close>

lemma split_js_no_sep: "c \<notin> set w \<Longrightarrow> split_js c w = [w]"
  by (induction w) auto

lemma split_js_first: "c \<notin> set w \<Longrightarrow> split_js c (w @ c # rest) = w # split_js c rest"
  by (induction w) auto

lemma token_of_absent: "token_of None = None"
  by (simp add: token_of_def)

lemma token_of_one_word:
  "CHR '' '' \<notin> set scheme \<Longrightarrow> token_of (Some scheme) = (if scheme = [] then Some [] else None)"
  by (simp add: token_of_def split_js_no_sep)

lemma token_of_two_words:
  "CHR '' '' \<notin> set scheme \<Longrightarrow> CHR '' '' \<notin> set token \<Longrightarrow>
     token_of (Some (scheme @ CHR '' '' # token)) = Some token"
  by (simp add: token_of_def split_js_first split_js_no_sep)

lemma authenticateToken_no_token:
  "token_of authHeader = None \<or> token_of authHeader = Some [] \<Longrightarrow>
     authenticateToken decode secret now authHeader = Inl (Reply 401 (Error Acesso_negado))"
  by (auto simp: authenticateToken_def)

lemma authenticateToken_token:
  "token_of authHeader = Some token \<Longrightarrow> token \<noteq> [] \<Longrightarrow>
     authenticateToken decode secret now authHeader =
       (case jwt_verify decode token secret now of
          Inl err \<Rightarrow> Inl (Reply 403 (Error Token_invalido))
        | Inr user \<Rightarrow> Inr user)"
  by (simp add: authenticateToken_def)

text \<open>
  Claim C5. The middleware answers 401 (Unauthenticated) when the authorization header
  carries no token: the header is absent, or it has no second word, or that word is
  empty. With a token it answers 403 (Forbidden) when the token does not parse, was
  signed with another secret, or has expired, which a token issued for a fixed time is
  once that time has passed. Otherwise it hands the decoded \<open>{id, role}\<close> to the handler
  of the route. A rejected request does not reach the handler.
\<close>

theorem authenticateToken_outcomes:
  "(token_of authHeader = None \<or> token_of authHeader = Some [] \<longrightarrow>
      authenticateToken decode secret now authHeader = Inl (Reply 401 (Error Acesso_negado))) \<and>
   (\<forall>token. token_of authHeader = Some token \<and> token \<noteq> [] \<longrightarrow>
      (decode token = None \<longrightarrow>
         authenticateToken decode secret now authHeader = Inl (Reply 403 (Error Token_invalido))) \<and>
      (\<forall>t. decode token = Some t \<longrightarrow>
         (jwt_key t \<noteq> secret \<or> jwt_exp t \<le> now \<longrightarrow>
            authenticateToken decode secret now authHeader =
              Inl (Reply 403 (Error Token_invalido))) \<and>
         (jwt_key t = secret \<and> now < jwt_exp t \<longrightarrow>
            authenticateToken decode secret now authHeader = Inr (jwt_payload t) \<and>
            protected_route decode secret now authHeader handler st =
              handler (jwt_payload t) st))) \<and>
   (\<forall>response. authenticateToken decode secret now authHeader = Inl response \<longrightarrow>
      protected_route decode secret now authHeader handler st = (response, st)) \<and>
   token_of None = None \<and>
   (\<forall>scheme token. CHR '' '' \<notin> set scheme \<and> CHR '' '' \<notin> set token \<longrightarrow>
      token_of (Some scheme) = (if scheme = [] then Some [] else None) \<and>
      token_of (Some (scheme @ CHR '' '' # token)) = Some token) \<and>
   (\<forall>encode payload key issued token.
      token_of authHeader = Some token \<and> token \<noteq> [] \<and>
      token = jwt_sign encode payload key (24 * 60 * 60) issued \<and>
      decode token = Some \<lparr>jwt_payload = payload, jwt_iat = issued,
                           jwt_exp = issued + 24 * 60 * 60, jwt_key = key\<rparr> \<and>
      (key \<noteq> secret \<or> issued + 24 * 60 * 60 \<le> now) \<longrightarrow>
      authenticateToken decode secret now authHeader =
        Inl (Reply 403 (Error Token_invalido)))"
proof -
  have a: "token_of authHeader = None \<or> token_of authHeader = Some [] \<longrightarrow>
      authenticateToken decode secret now authHeader = Inl (Reply 401 (Error Acesso_negado))"
    using authenticateToken_no_token by blast
  have b: "\<forall>token. token_of authHeader = Some token \<and> token \<noteq> [] \<longrightarrow>
      (decode token = None \<longrightarrow>
         authenticateToken decode secret now authHeader = Inl (Reply 403 (Error Token_invalido))) \<and>
      (\<forall>t. decode token = Some t \<longrightarrow>
         (jwt_key t \<noteq> secret \<or> jwt_exp t \<le> now \<longrightarrow>
            authenticateToken decode secret now authHeader =
              Inl (Reply 403 (Error Token_invalido))) \<and>
         (jwt_key t = secret \<and> now < jwt_exp t \<longrightarrow>
            authenticateToken decode secret now authHeader = Inr (jwt_payload t) \<and>
            protected_route decode secret now authHeader handler st =
              handler (jwt_payload t) st))"
    by (auto simp: authenticateToken_token protected_route_def jwt_verify_def)
  have c: "\<forall>response. authenticateToken decode secret now authHeader = Inl response \<longrightarrow>
      protected_route decode secret now authHeader handler st = (response, st)"
    by (simp add: protected_route_def)
  have d: "\<forall>scheme token. CHR '' '' \<notin> set scheme \<and> CHR '' '' \<notin> set token \<longrightarrow>
      token_of (Some scheme) = (if scheme = [] then Some [] else None) \<and>
      token_of (Some (scheme @ CHR '' '' # token)) = Some token"
    using token_of_one_word token_of_two_words by blast
  have e: "\<forall>encode payload key issued token.
      token_of authHeader = Some token \<and> token \<noteq> [] \<and>
      token = jwt_sign encode payload key (24 * 60 * 60) issued \<and>
      decode token = Some \<lparr>jwt_payload = payload, jwt_iat = issued,
                           jwt_exp = issued + 24 * 60 * 60, jwt_key = key\<rparr> \<and>
      (key \<noteq> secret \<or> issued + 24 * 60 * 60 \<le> now) \<longrightarrow>
      authenticateToken decode secret now authHeader =
        Inl (Reply 403 (Error Token_invalido))"
    by (auto simp: authenticateToken_token jwt_verify_def)
  show ?thesis
    by (rule conjI [OF a conjI [OF b conjI [OF c conjI [OF token_of_absent conjI [OF d e]]]]])
qed

theorem authenticateToken_outcomes_witness:
  "authenticateToken decodeA ''s3cret'' 200 None = Inl (Reply 401 (Error Acesso_negado)) \<and>
   authenticateToken decodeA ''s3cret'' 200 (Some ''Bearer'') =
     Inl (Reply 401 (Error Acesso_negado)) \<and>
   authenticateToken decodeA ''s3cret'' 200 (Some ''Bearer xyz'') =
     Inl (Reply 403 (Error Token_invalido)) \<and>
   authenticateToken decodeA ''another'' 200 (Some ''Bearer abc'') =
     Inl (Reply 403 (Error Token_invalido)) \<and>
   authenticateToken decodeA ''s3cret'' 86500 (Some ''Bearer abc'') =
     Inl (Reply 403 (Error Token_invalido)) \<and>
   authenticateToken decodeA ''s3cret'' 86499 (Some ''Bearer abc'') =
     Inr \<lparr>tok_id = 1, tok_role = JStr ''freelancer''\<rparr> \<and>
   protected_route decodeA ''s3cret'' 86499 (Some ''Bearer abc'') (\<lambda>user. hire user 1) job1 =
     hire \<lparr>tok_id = 1, tok_role = JStr ''freelancer''\<rparr> 1 job1"
proof -
  have none: "token_of None = None"
    by (simp add: token_of_def)
  have one: "token_of (Some ''Bearer'') = None"
    by (simp add: token_of_def)
  have abc: "token_of (Some ''Bearer abc'') = Some ''abc''"
    by (simp add: token_of_def)
  have xyz: "token_of (Some ''Bearer xyz'') = Some ''xyz''"
    by (simp add: token_of_def)
  from authenticateToken_outcomes [where authHeader = None and decode = decodeA
      and secret = "''s3cret''" and now = 200] none
  have 1: "authenticateToken decodeA ''s3cret'' 200 None = Inl (Reply 401 (Error Acesso_negado))"
    by simp
  from authenticateToken_outcomes [where authHeader = "Some ''Bearer''" and decode = decodeA
      and secret = "''s3cret''" and now = 200] one
  have 2: "authenticateToken decodeA ''s3cret'' 200 (Some ''Bearer'') =
     Inl (Reply 401 (Error Acesso_negado))"
    by simp
  from authenticateToken_outcomes [where authHeader = "Some ''Bearer xyz''" and decode = decodeA
      and secret = "''s3cret''" and now = 200] xyz
  have 3: "authenticateToken decodeA ''s3cret'' 200 (Some ''Bearer xyz'') =
     Inl (Reply 403 (Error Token_invalido))"
    by (simp add: decodeA_def)
  from authenticateToken_outcomes [where authHeader = "Some ''Bearer abc''" and decode = decodeA
      and secret = "''another''" and now = 200] abc
  have 4: "authenticateToken decodeA ''another'' 200 (Some ''Bearer abc'') =
     Inl (Reply 403 (Error Token_invalido))"
    by (simp add: decodeA_def tokenA_def)
  from authenticateToken_outcomes [where authHeader = "Some ''Bearer abc''" and decode = decodeA
      and secret = "''s3cret''" and now = 86500] abc
  have 5: "authenticateToken decodeA ''s3cret'' 86500 (Some ''Bearer abc'') =
     Inl (Reply 403 (Error Token_invalido))"
    by (simp add: decodeA_def tokenA_def)
  from authenticateToken_outcomes [where authHeader = "Some ''Bearer abc''" and decode = decodeA
      and secret = "''s3cret''" and now = 86499 and handler = "\<lambda>user. hire user 1"
      and st = job1] abc
  have 6: "authenticateToken decodeA ''s3cret'' 86499 (Some ''Bearer abc'') =
     Inr \<lparr>tok_id = 1, tok_role = JStr ''freelancer''\<rparr> \<and>
   protected_route decodeA ''s3cret'' 86499 (Some ''Bearer abc'') (\<lambda>user. hire user 1) job1 =
     hire \<lparr>tok_id = 1, tok_role = JStr ''freelancer''\<rparr> 1 job1"
    by (simp add: decodeA_def tokenA_def)
  from 1 2 3 4 5 6 show ?thesis by simp
qed

section \<open>Registration\<close>

lemma no_row_iff:
  "(filter P xs = []) = (\<not> (\<exists>x \<in> set xs. P x))"
  by (auto simp: filter_empty_conv)

lemma register_conflict:
  assumes "email \<noteq> JUndefined" and "\<exists>u \<in> set (users st). sql_eq (user_email u) email"
  shows "register hasher post name email password role st =
           (Reply 400 (Error Email_ja_cadastrado), st)"
proof -
  from assms(2) have "filter (\<lambda>u. sql_eq (user_email u) email) (users st) \<noteq> []"
    by (simp add: no_row_iff)
  with assms(1) show ?thesis
    by (simp add: register_def register_try_def new_user_def execute_def)
qed

lemma register_created:
  assumes "email \<noteq> JUndefined" and "name \<noteq> JUndefined"
    and "\<not> (\<exists>u \<in> set (users st). sql_eq (user_email u) email)"
  shows "register hasher post name email (JStr p) role st =
           (Reply 201 (Message_userId Usuario_criado_com_sucesso (next_user_id st)),
            snd (sendEmailBrevo post name email
              (st\<lparr>users := users st @
                    [\<lparr>user_id = next_user_id st, user_name = name, user_email = email,
                      user_password = hasher p 10,
                      user_role = (if truthy role then role else JStr ''freelancer''),
                      user_bio = JNull, user_avatar_url = JNull\<rparr>],
                  next_user_id := Suc (next_user_id st)\<rparr>)))"
proof -
  from assms(3) have none: "filter (\<lambda>u. sql_eq (user_email u) email) (users st) = []"
    by (simp add: no_row_iff)
  have role: "(if truthy role then role else JStr ''freelancer'') \<noteq> JUndefined"
    by (cases role) auto
  from assms(1,2) role
  have "execute [name, email, JStr (hasher p 10),
                 if truthy role then role else JStr ''freelancer''] = Inr ()"
    by (simp add: execute_def)
  with assms(1) none show ?thesis
    by (simp add: register_def register_try_def new_user_def execute_def bcrypt_hash_def Let_def)
qed

lemma sendEmailBrevo_frame:
  "users (snd (sendEmailBrevo post toName toEmail st)) = users st \<and>
   jobs (snd (sendEmailBrevo post toName toEmail st)) = jobs st \<and>
   messages (snd (sendEmailBrevo post toName toEmail st)) = messages st \<and>
   next_user_id (snd (sendEmailBrevo post toName toEmail st)) = next_user_id st \<and>
   next_job_id (snd (sendEmailBrevo post toName toEmail st)) = next_job_id st \<and>
   next_message_id (snd (sendEmailBrevo post toName toEmail st)) = next_message_id st \<and>
   cloudinary (snd (sendEmailBrevo post toName toEmail st)) = cloudinary st"
  by (cases post) (simp_all add: sendEmailBrevo_def)

lemma registered1_eq:
  "registered1 = init\<lparr>users := [\<lparr>user_id = 1, user_name = JStr ''Ana'',
       user_email = JStr ''ana@x.org'', user_password = ''#pw'',
       user_role = JStr ''freelancer'', user_bio = JNull, user_avatar_url = JNull\<rparr>],
     next_user_id := 2,
     console := [Email_de_registro_enviado_para (JStr ''ana@x.org'')]\<rparr>"
  by (simp add: registered1_def register_def register_try_def new_user_def execute_def sql_eq_def
        bcrypt_hash_def sendEmailBrevo_def hasherA_def init_def)

text \<open>
  Claim C4. A registration whose email is already in the users table is answered 400
  \<open>Email ja cadastrado\<close> (ConflictError) and leaves the state as it was. Otherwise, for a
  name and a password that are supplied, it is answered 201 with the key of the new user,
  and the users table gains exactly one row: that key, the name, the email, the hasher's
  output for the password at cost 10, and the given role, or \<open>freelancer\<close> when the role
  is unspecified (absent, or any other value that the source's test \<open>role ? role : ...\<close>
  takes for no role: null and the empty string among them).
\<close>

theorem register_outcomes:
  assumes "email \<noteq> JUndefined"
  shows
   "((\<exists>u \<in> set (users st). sql_eq (user_email u) email) \<longrightarrow>
       register hasher post name email password role st =
         (Reply 400 (Error Email_ja_cadastrado), st)) \<and>
    (\<not> (\<exists>u \<in> set (users st). sql_eq (user_email u) email) \<and> name \<noteq> JUndefined \<and>
     password = JStr p \<longrightarrow>
       fst (register hasher post name email password role st) =
         Reply 201 (Message_userId Usuario_criado_com_sucesso (next_user_id st)) \<and>
       users (snd (register hasher post name email password role st)) =
         users st @
           [\<lparr>user_id = next_user_id st, user_name = name, user_email = email,
             user_password = hasher p 10,
             user_role = (if truthy role then role else JStr ''freelancer''),
             user_bio = JNull, user_avatar_url = JNull\<rparr>] \<and>
       next_user_id (snd (register hasher post name email password role st)) =
         Suc (next_user_id st) \<and>
       jobs (snd (register hasher post name email password role st)) = jobs st \<and>
       messages (snd (register hasher post name email password role st)) = messages st) \<and>
    \<not> truthy JUndefined"
proof -
  have a: "(\<exists>u \<in> set (users st). sql_eq (user_email u) email) \<longrightarrow>
       register hasher post name email password role st =
         (Reply 400 (Error Email_ja_cadastrado), st)"
    using register_conflict [OF assms] by blast
  have b: "\<not> (\<exists>u \<in> set (users st). sql_eq (user_email u) email) \<and> name \<noteq> JUndefined \<and>
     password = JStr p \<longrightarrow>
       fst (register hasher post name email password role st) =
         Reply 201 (Message_userId Usuario_criado_com_sucesso (next_user_id st)) \<and>
       users (snd (register hasher post name email password role st)) =
         users st @
           [\<lparr>user_id = next_user_id st, user_name = name, user_email = email,
             user_password = hasher p 10,
             user_role = (if truthy role then role else JStr ''freelancer''),
             user_bio = JNull, user_avatar_url = JNull\<rparr>] \<and>
       next_user_id (snd (register hasher post name email password role st)) =
         Suc (next_user_id st) \<and>
       jobs (snd (register hasher post name email password role st)) = jobs st \<and>
       messages (snd (register hasher post name email password role st)) = messages st"
  proof (intro impI, elim conjE)
    assume n: "\<not> (\<exists>u \<in> set (users st). sql_eq (user_email u) email)"
      and "name \<noteq> JUndefined" and pw: "password = JStr p"
    note created = register_created [OF assms this(2) n, of hasher post p role, folded pw]
    show "fst (register hasher post name email password role st) =
         Reply 201 (Message_userId Usuario_criado_com_sucesso (next_user_id st)) \<and>
       users (snd (register hasher post name email password role st)) =
         users st @
           [\<lparr>user_id = next_user_id st, user_name = name, user_email = email,
             user_password = hasher p 10,
             user_role = (if truthy role then role else JStr ''freelancer''),
             user_bio = JNull, user_avatar_url = JNull\<rparr>] \<and>
       next_user_id (snd (register hasher post name email password role st)) =
         Suc (next_user_id st) \<and>
       jobs (snd (register hasher post name email password role st)) = jobs st \<and>
       messages (snd (register hasher post name email password role st)) = messages st"
      unfolding created by (simp add: sendEmailBrevo_frame)
  qed
  have c: "\<not> truthy JUndefined" by simp
  show ?thesis by (rule conjI [OF a conjI [OF b c]])
qed

theorem register_outcomes_witness:
  "register hasherA Rejected (JStr ''Ana'') (JStr ''ana@x.org'') (JStr ''other'')
     (JStr ''client'') registered1 = (Reply 400 (Error Email_ja_cadastrado), registered1) \<and>
   fst (register hasherA Rejected (JStr ''Bia'') (JStr ''bia@x.org'') (JStr ''pw2'')
     (JStr ''client'') registered1) =
     Reply 201 (Message_userId Usuario_criado_com_sucesso 2) \<and>
   map user_role (users (snd (register hasherA Rejected (JStr ''Bia'') (JStr ''bia@x.org'')
     (JStr ''pw2'') (JStr ''client'') registered1))) = [JStr ''freelancer'', JStr ''client''] \<and>
   map user_password (users (snd (register hasherA Rejected (JStr ''Bia'') (JStr ''bia@x.org'')
     (JStr ''pw2'') (JStr ''client'') registered1))) = [''#pw'', ''#pw2'']"
proof -
  have e: "\<exists>u \<in> set (users registered1). sql_eq (user_email u) (JStr ''ana@x.org'')"
    by (simp add: registered1_eq sql_eq_def)
  have n: "\<not> (\<exists>u \<in> set (users registered1). sql_eq (user_email u) (JStr ''bia@x.org''))"
    by (simp add: registered1_eq sql_eq_def)
  from register_outcomes [where email = "JStr ''ana@x.org''" and st = registered1
      and hasher = hasherA and post = Rejected and name = "JStr ''Ana''"
      and password = "JStr ''other''" and role = "JStr ''client''"] e
  have 1: "register hasherA Rejected (JStr ''Ana'') (JStr ''ana@x.org'') (JStr ''other'')
     (JStr ''client'') registered1 = (Reply 400 (Error Email_ja_cadastrado), registered1)"
    by simp
  from register_outcomes [where email = "JStr ''bia@x.org''" and st = registered1
      and hasher = hasherA and post = Rejected and name = "JStr ''Bia''"
      and password = "JStr ''pw2''" and p = "''pw2''" and role = "JStr ''client''"] n
  have 2: "fst (register hasherA Rejected (JStr ''Bia'') (JStr ''bia@x.org'') (JStr ''pw2'')
       (JStr ''client'') registered1) =
       Reply 201 (Message_userId Usuario_criado_com_sucesso (next_user_id registered1)) \<and>
     users (snd (register hasherA Rejected (JStr ''Bia'') (JStr ''bia@x.org'') (JStr ''pw2'')
       (JStr ''client'') registered1)) =
       users registered1 @
         [\<lparr>user_id = next_user_id registered1, user_name = JStr ''Bia'',
           user_email = JStr ''bia@x.org'', user_password = hasherA ''pw2'' 10,
           user_role = JStr ''client'', user_bio = JNull, user_avatar_url = JNull\<rparr>]"
    by simp
  from 1 2 show ?thesis
    by (simp add: registered1_eq init_def hasherA_def)
qed

section \<open>Login\<close>

lemma login_not_found:
  assumes "email \<noteq> JUndefined"
    and "\<not> (\<exists>u \<in> set (users st). sql_eq (user_email u) email)"
  shows "login matches encode secret now email password st =
           (Reply 400 (Error Usuario_nao_encontrado), st)"
proof -
  from assms(2) have "filter (\<lambda>u. sql_eq (user_email u) email) (users st) = []"
    by (simp add: no_row_iff)
  with assms(1) show ?thesis
    by (simp add: login_def login_try_def execute_def)
qed

lemma login_found:
  assumes "email \<noteq> JUndefined"
    and "filter (\<lambda>u. sql_eq (user_email u) email) (users st) = user # rest"
  shows "login matches encode secret now email (JStr p) st =
           (if matches p (user_password user)
            then (Reply 200 (Token_user
                     (jwt_sign encode \<lparr>tok_id = user_id user, tok_role = user_role user\<rparr>
                        secret (24 * 60 * 60) now)
                     \<lparr>pu_id = user_id user, pu_name = user_name user, pu_role = user_role user,
                      pu_avatar = user_avatar_url user\<rparr>), st)
            else (Reply 400 (Error Senha_incorreta), st))"
  using assms by (simp add: login_def login_try_def execute_def bcrypt_compare_def)

text \<open>
  Claim C3. For an email and a password that are supplied: a login whose email matches
  no row of the users table is answered 400 \<open>Usuario nao encontrado\<close> (NotFoundError); when
  the first matching row is found and the password does not match its stored hash, 400
  \<open>Senha incorreta\<close> (InvalidCredentialError); otherwise 200 with a token and the projection
  \<open>{id, name, role, avatar}\<close> of that row. The token is the serialisation of \<open>{id, role}\<close> of
  the row, signed with the server's secret and expiring 86400 seconds (24 hours) after
  it was issued: wherever it parses back, it verifies to \<open>{id, role}\<close> before that time
  and is expired from then on. The state is the same in all three cases.
\<close>

theorem login_outcomes:
  assumes "email \<noteq> JUndefined" and "password = JStr p"
  shows
   "(\<not> (\<exists>u \<in> set (users st). sql_eq (user_email u) email) \<longrightarrow>
       login matches encode secret now email password st =
         (Reply 400 (Error Usuario_nao_encontrado), st)) \<and>
    (\<forall>user rest. filter (\<lambda>u. sql_eq (user_email u) email) (users st) = user # rest \<longrightarrow>
       (\<not> matches p (user_password user) \<longrightarrow>
          login matches encode secret now email password st =
            (Reply 400 (Error Senha_incorreta), st)) \<and>
       (matches p (user_password user) \<longrightarrow>
          login matches encode secret now email password st =
            (Reply 200 (Token_user
               (encode \<lparr>jwt_payload = \<lparr>tok_id = user_id user, tok_role = user_role user\<rparr>,
                        jwt_iat = now, jwt_exp = now + 86400, jwt_key = secret\<rparr>)
               \<lparr>pu_id = user_id user, pu_name = user_name user, pu_role = user_role user,
                pu_avatar = user_avatar_url user\<rparr>), st) \<and>
          (\<forall>decode later.
             decode (encode \<lparr>jwt_payload = \<lparr>tok_id = user_id user, tok_role = user_role user\<rparr>,
                        jwt_iat = now, jwt_exp = now + 86400, jwt_key = secret\<rparr>) =
               Some \<lparr>jwt_payload = \<lparr>tok_id = user_id user, tok_role = user_role user\<rparr>,
                        jwt_iat = now, jwt_exp = now + 86400, jwt_key = secret\<rparr> \<longrightarrow>
             jwt_verify decode
               (encode \<lparr>jwt_payload = \<lparr>tok_id = user_id user, tok_role = user_role user\<rparr>,
                        jwt_iat = now, jwt_exp = now + 86400, jwt_key = secret\<rparr>) secret later =
               (if later < now + 86400
                then Inr \<lparr>tok_id = user_id user, tok_role = user_role user\<rparr>
                else Inl TokenExpiredError))))"
proof -
  have a: "\<not> (\<exists>u \<in> set (users st). sql_eq (user_email u) email) \<longrightarrow>
       login matches encode secret now email password st =
         (Reply 400 (Error Usuario_nao_encontrado), st)"
    using login_not_found [OF assms(1)] by blast
  have sign: "jwt_sign encode payload secret (24 * 60 * 60) now =
      encode \<lparr>jwt_payload = payload, jwt_iat = now, jwt_exp = now + 86400, jwt_key = secret\<rparr>"
    for payload
    by (simp add: jwt_sign_def)
  have b: "\<forall>user rest. filter (\<lambda>u. sql_eq (user_email u) email) (users st) = user # rest \<longrightarrow>
       (\<not> matches p (user_password user) \<longrightarrow>
          login matches encode secret now email password st =
            (Reply 400 (Error Senha_incorreta), st)) \<and>
       (matches p (user_password user) \<longrightarrow>
          login matches encode secret now email password st =
            (Reply 200 (Token_user
               (encode \<lparr>jwt_payload = \<lparr>tok_id = user_id user, tok_role = user_role user\<rparr>,
                        jwt_iat = now, jwt_exp = now + 86400, jwt_key = secret\<rparr>)
               \<lparr>pu_id = user_id user, pu_name = user_name user, pu_role = user_role user,
                pu_avatar = user_avatar_url user\<rparr>), st) \<and>
          (\<forall>decode later.
             decode (encode \<lparr>jwt_payload = \<lparr>tok_id = user_id user, tok_role = user_role user\<rparr>,
                        jwt_iat = now, jwt_exp = now + 86400, jwt_key = secret\<rparr>) =
               Some \<lparr>jwt_payload = \<lparr>tok_id = user_id user, tok_role = user_role user\<rparr>,
                        jwt_iat = now, jwt_exp = now + 86400, jwt_key = secret\<rparr> \<longrightarrow>
             jwt_verify decode
               (encode \<lparr>jwt_payload = \<lparr>tok_id = user_id user, tok_role = user_role user\<rparr>,
                        jwt_iat = now, jwt_exp = now + 86400, jwt_key = secret\<rparr>) secret later =
               (if later < now + 86400
                then Inr \<lparr>tok_id = user_id user, tok_role = user_role user\<rparr>
                else Inl TokenExpiredError)))"
  proof (intro allI impI conjI)
    fix user rest
    assume f: "filter (\<lambda>u. sql_eq (user_email u) email) (users st) = user # rest"
    note found = login_found [OF assms(1) f, of matches encode secret now p, folded assms(2)]
    { assume "\<not> matches p (user_password user)"
      with found show "login matches encode secret now email password st =
            (Reply 400 (Error Senha_incorreta), st)" by simp }
    { assume "matches p (user_password user)"
      with found show "login matches encode secret now email password st =
            (Reply 200 (Token_user
               (encode \<lparr>jwt_payload = \<lparr>tok_id = user_id user, tok_role = user_role user\<rparr>,
                        jwt_iat = now, jwt_exp = now + 86400, jwt_key = secret\<rparr>)
               \<lparr>pu_id = user_id user, pu_name = user_name user, pu_role = user_role user,
                pu_avatar = user_avatar_url user\<rparr>), st)" by (simp add: jwt_sign_def) }
    { fix decode later
      assume "decode (encode \<lparr>jwt_payload = \<lparr>tok_id = user_id user, tok_role = user_role user\<rparr>,
                        jwt_iat = now, jwt_exp = now + 86400, jwt_key = secret\<rparr>) =
               Some \<lparr>jwt_payload = \<lparr>tok_id = user_id user, tok_role = user_role user\<rparr>,
                        jwt_iat = now, jwt_exp = now + 86400, jwt_key = secret\<rparr>"
      then show "jwt_verify decode
               (encode \<lparr>jwt_payload = \<lparr>tok_id = user_id user, tok_role = user_role user\<rparr>,
                        jwt_iat = now, jwt_exp = now + 86400, jwt_key = secret\<rparr>) secret later =
               (if later < now + 86400
                then Inr \<lparr>tok_id = user_id user, tok_role = user_role user\<rparr>
                else Inl TokenExpiredError)"
        by (auto simp: jwt_verify_def) }
  qed
  show ?thesis by (rule conjI [OF a b])
qed

theorem login_outcomes_witness:
  "login matchesA encodeA ''s3cret'' 100 (JStr ''eve@x.org'') (JStr ''pw'') registered1 =
     (Reply 400 (Error Usuario_nao_encontrado), registered1) \<and>
   login matchesA encodeA ''s3cret'' 100 (JStr ''ana@x.org'') (JStr ''guess'') registered1 =
     (Reply 400 (Error Senha_incorreta), registered1) \<and>
   login matchesA encodeA ''s3cret'' 100 (JStr ''ana@x.org'') (JStr ''pw'') registered1 =
     (Reply 200 (Token_user ''abc''
        \<lparr>pu_id = 1, pu_name = JStr ''Ana'', pu_role = JStr ''freelancer'', pu_avatar = JNull\<rparr>),
      registered1) \<and>
   jwt_verify decodeA ''abc'' ''s3cret'' 86499 = Inr \<lparr>tok_id = 1, tok_role = JStr ''freelancer''\<rparr> \<and>
   jwt_verify decodeA ''abc'' ''s3cret'' 86500 = Inl TokenExpiredError"
proof -
  let ?ana = "\<lparr>user_id = 1, user_name = JStr ''Ana'',
       user_email = JStr ''ana@x.org'', user_password = ''#pw'',
       user_role = JStr ''freelancer'', user_bio = JNull, user_avatar_url = JNull\<rparr>"
  have n: "\<not> (\<exists>u \<in> set (users registered1). sql_eq (user_email u) (JStr ''eve@x.org''))"
    by (simp add: registered1_eq sql_eq_def)
  have f: "filter (\<lambda>u. sql_eq (user_email u) (JStr ''ana@x.org'')) (users registered1) =
      ?ana # []"
    by (simp add: registered1_eq sql_eq_def)
  from login_outcomes [where email = "JStr ''eve@x.org''" and password = "JStr ''pw''"
      and p = "''pw''" and st = registered1 and matches = matchesA and encode = encodeA
      and secret = "''s3cret''" and now = 100] n
  have 1: "login matchesA encodeA ''s3cret'' 100 (JStr ''eve@x.org'') (JStr ''pw'') registered1 =
     (Reply 400 (Error Usuario_nao_encontrado), registered1)"
    by simp
  from login_outcomes [where email = "JStr ''ana@x.org''" and password = "JStr ''guess''"
      and p = "''guess''" and st = registered1 and matches = matchesA and encode = encodeA
      and secret = "''s3cret''" and now = 100] f
  have 2: "login matchesA encodeA ''s3cret'' 100 (JStr ''ana@x.org'') (JStr ''guess'')
     registered1 = (Reply 400 (Error Senha_incorreta), registered1)"
    by (simp add: matchesA_def)
  from login_outcomes [where email = "JStr ''ana@x.org''" and password = "JStr ''pw''"
      and p = "''pw''" and st = registered1 and matches = matchesA and encode = encodeA
      and secret = "''s3cret''" and now = 100] f
  have 3: "login matchesA encodeA ''s3cret'' 100 (JStr ''ana@x.org'') (JStr ''pw'') registered1 =
     (Reply 200 (Token_user (encodeA tokenA)
        \<lparr>pu_id = 1, pu_name = JStr ''Ana'', pu_role = JStr ''freelancer'', pu_avatar = JNull\<rparr>),
      registered1) \<and>
     (\<forall>decode later. decode (encodeA tokenA) = Some tokenA \<longrightarrow>
        jwt_verify decode (encodeA tokenA) ''s3cret'' later =
          (if later < 100 + 86400 then Inr \<lparr>tok_id = 1, tok_role = JStr ''freelancer''\<rparr>
           else Inl TokenExpiredError))"
    by (simp add: matchesA_def tokenA_def cong: if_cong)
  have r: "decodeA (encodeA tokenA) = Some tokenA" and abc: "encodeA tokenA = ''abc''"
    by (simp_all add: decodeA_def encodeA_def)
  from 3 r have 4: "jwt_verify decodeA (encodeA tokenA) ''s3cret'' later =
          (if later < 100 + 86400 then Inr \<lparr>tok_id = 1, tok_role = JStr ''freelancer''\<rparr>
           else Inl TokenExpiredError)" for later
    by blast
  from 1 2 3 4 [of 86499] 4 [of 86500] show ?thesis
    by (simp add: abc)
qed

section \<open>The welcome notification\<close>

lemma register_post_response:
  "fst (register hasher post name email password role st) =
     fst (register hasher post' name email password role st)"
  by (simp add: register_def register_try_def new_user_def Let_def split: sum.splits prod.splits)

lemma register_post_tables:
  "users (snd (register hasher post name email password role st)) =
     users (snd (register hasher post' name email password role st)) \<and>
   next_user_id (snd (register hasher post name email password role st)) =
     next_user_id (snd (register hasher post' name email password role st)) \<and>
   jobs (snd (register hasher post name email password role st)) =
     jobs (snd (register hasher post' name email password role st)) \<and>
   messages (snd (register hasher post name email password role st)) =
     messages (snd (register hasher post' name email password role st))"
  by (simp add: register_def register_try_def new_user_def Let_def sendEmailBrevo_frame
           split: sum.splits prod.splits)

text \<open>
  Claim C8. Whether the welcome notification is delivered or fails, a registration gives
  the same response and the same tables: the failure never reaches the caller. When the
  registration gets as far as the notification and the send fails, the response is the
  201 with the key of the new user, the new row is stored, and the failure is written to
  the console.
\<close>

theorem register_notification_failure:
  "fst (register hasher Rejected name email password role st) =
     fst (register hasher (Resolved data) name email password role st) \<and>
   users (snd (register hasher Rejected name email password role st)) =
     users (snd (register hasher (Resolved data) name email password role st)) \<and>
   next_user_id (snd (register hasher Rejected name email password role st)) =
     next_user_id (snd (register hasher (Resolved data) name email password role st)) \<and>
   jobs (snd (register hasher Rejected name email password role st)) =
     jobs (snd (register hasher (Resolved data) name email password role st)) \<and>
   messages (snd (register hasher Rejected name email password role st)) =
     messages (snd (register hasher (Resolved data) name email password role st)) \<and>
   (email \<noteq> JUndefined \<and> name \<noteq> JUndefined \<and> password = JStr p \<and>
    \<not> (\<exists>u \<in> set (users st). sql_eq (user_email u) email) \<longrightarrow>
      register hasher Rejected name email password role st =
        (Reply 201 (Message_userId Usuario_criado_com_sucesso (next_user_id st)),
         st\<lparr>users := users st @
               [\<lparr>user_id = next_user_id st, user_name = name, user_email = email,
                 user_password = hasher p 10,
                 user_role = (if truthy role then role else JStr ''freelancer''),
                 user_bio = JNull, user_avatar_url = JNull\<rparr>],
             next_user_id := Suc (next_user_id st),
             console := console st @ [Erro_ao_enviar_email_Brevo]\<rparr>))"
proof -
  have c: "email \<noteq> JUndefined \<and> name \<noteq> JUndefined \<and> password = JStr p \<and>
    \<not> (\<exists>u \<in> set (users st). sql_eq (user_email u) email) \<longrightarrow>
      register hasher Rejected name email password role st =
        (Reply 201 (Message_userId Usuario_criado_com_sucesso (next_user_id st)),
         st\<lparr>users := users st @
               [\<lparr>user_id = next_user_id st, user_name = name, user_email = email,
                 user_password = hasher p 10,
                 user_role = (if truthy role then role else JStr ''freelancer''),
                 user_bio = JNull, user_avatar_url = JNull\<rparr>],
             next_user_id := Suc (next_user_id st),
             console := console st @ [Erro_ao_enviar_email_Brevo]\<rparr>)"
  proof (intro impI, elim conjE)
    assume e: "email \<noteq> JUndefined" and n: "name \<noteq> JUndefined" and pw: "password = JStr p"
      and none: "\<not> (\<exists>u \<in> set (users st). sql_eq (user_email u) email)"
    show "register hasher Rejected name email password role st =
        (Reply 201 (Message_userId Usuario_criado_com_sucesso (next_user_id st)),
         st\<lparr>users := users st @
               [\<lparr>user_id = next_user_id st, user_name = name, user_email = email,
                 user_password = hasher p 10,
                 user_role = (if truthy role then role else JStr ''freelancer''),
                 user_bio = JNull, user_avatar_url = JNull\<rparr>],
             next_user_id := Suc (next_user_id st),
             console := console st @ [Erro_ao_enviar_email_Brevo]\<rparr>)"
      unfolding pw register_created [OF e n none]
      by (simp add: sendEmailBrevo_def)
  qed
  from register_post_response [of hasher Rejected name email password role st "Resolved data"]
    register_post_tables [of hasher Rejected name email password role st "Resolved data"] c
  show ?thesis by simp
qed

theorem register_notification_failure_witness:
  "register hasherA Rejected (JStr ''Ana'') (JStr ''ana@x.org'') (JStr ''pw'') JUndefined init =
     (Reply 201 (Message_userId Usuario_criado_com_sucesso 1),
      init\<lparr>users := [\<lparr>user_id = 1, user_name = JStr ''Ana'', user_email = JStr ''ana@x.org'',
              user_password = ''#pw'', user_role = JStr ''freelancer'', user_bio = JNull,
              user_avatar_url = JNull\<rparr>],
           next_user_id := 2, console := [Erro_ao_enviar_email_Brevo]\<rparr>) \<and>
   fst (register hasherA (Resolved JNull) (JStr ''Ana'') (JStr ''ana@x.org'') (JStr ''pw'')
          JUndefined init) = Reply 201 (Message_userId Usuario_criado_com_sucesso 1) \<and>
   users (snd (register hasherA (Resolved JNull) (JStr ''Ana'') (JStr ''ana@x.org'')
          (JStr ''pw'') JUndefined init)) =
     [\<lparr>user_id = 1, user_name = JStr ''Ana'', user_email = JStr ''ana@x.org'',
              user_password = ''#pw'', user_role = JStr ''freelancer'', user_bio = JNull,
              user_avatar_url = JNull\<rparr>]"
proof -
  have n: "\<not> (\<exists>u \<in> set (users init). sql_eq (user_email u) (JStr ''ana@x.org''))"
    by (simp add: init_def)
  note swallowed = register_notification_failure [where hasher = hasherA
      and name = "JStr ''Ana''" and email = "JStr ''ana@x.org''" and password = "JStr ''pw''"
      and p = "''pw''" and role = JUndefined and st = init and data = JNull]
  from swallowed have response:
    "fst (register hasherA (Resolved JNull) (JStr ''Ana'') (JStr ''ana@x.org'') (JStr ''pw'')
       JUndefined init) =
     fst (register hasherA Rejected (JStr ''Ana'') (JStr ''ana@x.org'') (JStr ''pw'')
       JUndefined init)"
    by simp
  from swallowed have table:
    "users (snd (register hasherA (Resolved JNull) (JStr ''Ana'') (JStr ''ana@x.org'')
       (JStr ''pw'') JUndefined init)) =
     users (snd (register hasherA Rejected (JStr ''Ana'') (JStr ''ana@x.org'') (JStr ''pw'')
       JUndefined init))"
    by simp
  from swallowed n have failed:
    "register hasherA Rejected (JStr ''Ana'') (JStr ''ana@x.org'') (JStr ''pw'') JUndefined init =
     (Reply 201 (Message_userId Usuario_criado_com_sucesso (next_user_id init)),
      init\<lparr>users := users init @
             [\<lparr>user_id = next_user_id init, user_name = JStr ''Ana'',
               user_email = JStr ''ana@x.org'', user_password = hasherA ''pw'' 10,
               user_role = JStr ''freelancer'', user_bio = JNull, user_avatar_url = JNull\<rparr>],
           next_user_id := Suc (next_user_id init),
           console := console init @ [Erro_ao_enviar_email_Brevo]\<rparr>)"
    by simp
  show ?thesis
    unfolding response table failed
    by (simp add: init_def hasherA_def)
qed

section \<open>Registration without a password\<close>

text \<open>
  Claim C10. A registration whose password is absent (or is anything but a string), for
  an email that is not in the users table, is answered with the 500 of the handler's
  catch-all and with no 400; no row is inserted and no key is used up. When the email was
  supplied, the error caught is the hasher's rejection of its argument.
\<close>

theorem register_without_password:
  assumes "\<forall>p. password \<noteq> JStr p"
    and "\<not> (\<exists>u \<in> set (users st). sql_eq (user_email u) email)"
  shows "fst (register hasher post name email password role st) =
           Reply 500 (Error Erro_no_servidor_durante_o_registro) \<and>
         users (snd (register hasher post name email password role st)) = users st \<and>
         next_user_id (snd (register hasher post name email password role st)) =
           next_user_id st \<and>
         jobs (snd (register hasher post name email password role st)) = jobs st \<and>
         messages (snd (register hasher post name email password role st)) = messages st \<and>
         (email \<noteq> JUndefined \<longrightarrow>
            console (snd (register hasher post name email password role st)) =
              console st @ [Erro_no_Registro Illegal_arguments])"
proof -
  from assms(2) have none: "filter (\<lambda>u. sql_eq (user_email u) email) (users st) = []"
    by (simp add: no_row_iff)
  from assms(1) have "bcrypt_hash hasher password 10 = Inl Illegal_arguments"
    by (cases password) (simp_all add: bcrypt_hash_def)
  with none show ?thesis
    by (simp add: register_def register_try_def new_user_def execute_def)
qed

theorem register_without_password_witness:
  "fst (register hasherA (Resolved JNull) (JStr ''Ana'') (JStr ''ana@x.org'') JUndefined
          JUndefined init) = Reply 500 (Error Erro_no_servidor_durante_o_registro) \<and>
   users (snd (register hasherA (Resolved JNull) (JStr ''Ana'') (JStr ''ana@x.org'') JUndefined
          JUndefined init)) = [] \<and>
   console (snd (register hasherA (Resolved JNull) (JStr ''Ana'') (JStr ''ana@x.org'')
          JUndefined JUndefined init)) = [Erro_no_Registro Illegal_arguments]"
proof -
  have p: "\<forall>p. JUndefined \<noteq> JStr p"
    by simp
  have n: "\<not> (\<exists>u \<in> set (users init). sql_eq (user_email u) (JStr ''ana@x.org''))"
    by (simp add: init_def)
  from register_without_password [OF p n, of hasherA "Resolved JNull" "JStr ''Ana''" JUndefined]
  show ?thesis
    by (simp add: init_def)
qed

section \<open>Messages\<close>

lemma sendMessage_forbidden:
  assumes "\<not> (\<exists>j \<in> set (jobs st). job_id j = jobId \<and>
             (job_client_id j = tok_id user \<or> job_freelancer_id j = Some (tok_id user)))"
  shows "sendMessage user jobId content receiverId st = (Reply 403 (Error Permissao_negada), st)"
proof -
  from assms have "filter (\<lambda>j. job_id j = jobId \<and>
      (job_client_id j = tok_id user \<or> job_freelancer_id j = Some (tok_id user))) (jobs st) = []"
    by (simp add: no_row_iff)
  then show ?thesis
    by (simp add: sendMessage_def sendMessage_try_def)
qed

lemma first_row_holds: "filter P xs = x # rest \<Longrightarrow> P x \<and> x \<in> set xs"
  by (metis filter_eq_ConsD in_set_conv_decomp)

lemma sendMessage_no_freelancer:
  assumes f: "filter (\<lambda>j. job_id j = jobId \<and>
      (job_client_id j = tok_id user \<or> job_freelancer_id j = Some (tok_id user))) (jobs st) =
        job0 # rest"
    and n: "job_freelancer_id job0 = None"
  shows "sendMessage user jobId content receiverId st =
           (Reply 400 (Error O_job_ainda_nao_foi_aceito_por_um_freelancer), st)"
proof -
  from first_row_holds [OF f] n have "job_client_id job0 = tok_id user"
    by simp
  with f n show ?thesis
    by (simp add: sendMessage_def sendMessage_try_def)
qed

lemma sendMessage_sent:
  assumes f: "filter (\<lambda>j. job_id j = jobId \<and>
      (job_client_id j = tok_id user \<or> job_freelancer_id j = Some (tok_id user))) (jobs st) =
        job0 # rest"
    and s: "job_freelancer_id job0 = Some freelancer" "0 < freelancer" "0 < job_client_id job0"
    and c: "content \<noteq> JUndefined"
  shows "sendMessage user jobId content receiverId st =
           (Reply 201 (Message Mensagem_enviada),
            st\<lparr>messages := messages st @
                  [\<lparr>message_id = next_message_id st, message_job_id = jobId,
                    message_sender_id = tok_id user,
                    message_receiver_id =
                      (if tok_id user = job_client_id job0 then freelancer
                       else job_client_id job0),
                    message_content = content\<rparr>],
                next_message_id := Suc (next_message_id st)\<rparr>)"
  using f s c by (simp add: sendMessage_def sendMessage_try_def execute_def)

text \<open>
  Claim C6. A message for a job of which the sender is neither the client nor the
  assigned freelancer (or for no job at all) is answered 403 (Forbidden) and changes
  nothing. Otherwise, with the first such row of the jobs table: when the job has no
  freelancer yet, it is answered 400 (ValidationError) and changes nothing; when it has
  one, and the content is supplied, it is answered 201 and exactly one message is
  appended to the messages table, from the sender to the other participant (the
  freelancer when the sender is the client, the client otherwise); the earlier messages
  and the rest of the state stay as they were. Keys are positive, as the counters give
  them.
\<close>

theorem sendMessage_outcomes:
  "(\<not> (\<exists>j \<in> set (jobs st). job_id j = jobId \<and>
          (job_client_id j = tok_id user \<or> job_freelancer_id j = Some (tok_id user))) \<longrightarrow>
      sendMessage user jobId content receiverId st =
        (Reply 403 (Error Permissao_negada), st)) \<and>
   (\<forall>job0 rest.
      filter (\<lambda>j. job_id j = jobId \<and>
          (job_client_id j = tok_id user \<or> job_freelancer_id j = Some (tok_id user)))
        (jobs st) = job0 # rest \<longrightarrow>
      (job_freelancer_id job0 = None \<longrightarrow>
         sendMessage user jobId content receiverId st =
           (Reply 400 (Error O_job_ainda_nao_foi_aceito_por_um_freelancer), st)) \<and>
      (\<forall>freelancer.
         job_freelancer_id job0 = Some freelancer \<and> 0 < freelancer \<and>
         0 < job_client_id job0 \<and> content \<noteq> JUndefined \<longrightarrow>
         sendMessage user jobId content receiverId st =
           (Reply 201 (Message Mensagem_enviada),
            st\<lparr>messages := messages st @
                  [\<lparr>message_id = next_message_id st, message_job_id = jobId,
                    message_sender_id = tok_id user,
                    message_receiver_id =
                      (if tok_id user = job_client_id job0 then freelancer
                       else job_client_id job0),
                    message_content = content\<rparr>],
                next_message_id := Suc (next_message_id st)\<rparr>)))"
  using sendMessage_forbidden sendMessage_no_freelancer sendMessage_sent
  by (intro conjI allI impI; (elim conjE)?) blast+

theorem sendMessage_outcomes_witness:
  "sendMessage \<lparr>tok_id = 3, tok_role = JStr ''freelancer''\<rparr> 1 (JStr ''hi'') JUndefined hired1 =
     (Reply 403 (Error Permissao_negada), hired1) \<and>
   sendMessage \<lparr>tok_id = 1, tok_role = JStr ''client''\<rparr> 1 (JStr ''hi'') JUndefined job1 =
     (Reply 400 (Error O_job_ainda_nao_foi_aceito_por_um_freelancer), job1) \<and>
   sendMessage \<lparr>tok_id = 1, tok_role = JStr ''client''\<rparr> 1 (JStr ''hi'') JUndefined hired1 =
     (Reply 201 (Message Mensagem_enviada),
      hired1\<lparr>messages := [\<lparr>message_id = 1, message_job_id = 1, message_sender_id = 1,
                             message_receiver_id = 2, message_content = JStr ''hi''\<rparr>],
             next_message_id := 2\<rparr>) \<and>
   sendMessage \<lparr>tok_id = 2, tok_role = JStr ''freelancer''\<rparr> 1 (JStr ''ok'') JUndefined hired1 =
     (Reply 201 (Message Mensagem_enviada),
      hired1\<lparr>messages := [\<lparr>message_id = 1, message_job_id = 1, message_sender_id = 2,
                             message_receiver_id = 1, message_content = JStr ''ok''\<rparr>],
             next_message_id := 2\<rparr>)"
proof -
  let ?open = "\<lparr>job_id = 1, job_client_id = 1, job_title = JStr ''logo'',
      job_description = JStr ''a logo'', job_budget = JNum 50, job_status = ''open'',
      job_freelancer_id = None\<rparr>"
  let ?taken = "\<lparr>job_id = 1, job_client_id = 1, job_title = JStr ''logo'',
      job_description = JStr ''a logo'', job_budget = JNum 50, job_status = ''in_progress'',
      job_freelancer_id = Some 2\<rparr>"
  have n: "\<not> (\<exists>j \<in> set (jobs hired1). job_id j = 1 \<and>
      (job_client_id j = tok_id \<lparr>tok_id = 3, tok_role = JStr ''freelancer''\<rparr> \<or>
       job_freelancer_id j = Some (tok_id \<lparr>tok_id = 3, tok_role = JStr ''freelancer''\<rparr>)))"
    by (simp add: hired1_eq init_def)
  have o: "filter (\<lambda>j. job_id j = 1 \<and>
      (job_client_id j = tok_id \<lparr>tok_id = 1, tok_role = JStr ''client''\<rparr> \<or>
       job_freelancer_id j = Some (tok_id \<lparr>tok_id = 1, tok_role = JStr ''client''\<rparr>)))
      (jobs job1) = ?open # []"
    by (simp add: job1_eq init_def)
  have c: "filter (\<lambda>j. job_id j = 1 \<and>
      (job_client_id j = tok_id \<lparr>tok_id = 1, tok_role = JStr ''client''\<rparr> \<or>
       job_freelancer_id j = Some (tok_id \<lparr>tok_id = 1, tok_role = JStr ''client''\<rparr>)))
      (jobs hired1) = ?taken # []"
    by (simp add: hired1_eq init_def)
  have f: "filter (\<lambda>j. job_id j = 1 \<and>
      (job_client_id j = tok_id \<lparr>tok_id = 2, tok_role = JStr ''freelancer''\<rparr> \<or>
       job_freelancer_id j = Some (tok_id \<lparr>tok_id = 2, tok_role = JStr ''freelancer''\<rparr>)))
      (jobs hired1) = ?taken # []"
    by (simp add: hired1_eq init_def)
  from sendMessage_outcomes [where user = "\<lparr>tok_id = 3, tok_role = JStr ''freelancer''\<rparr>"
      and jobId = 1 and st = hired1 and content = "JStr ''hi''" and receiverId = JUndefined] n
  have 1: "sendMessage \<lparr>tok_id = 3, tok_role = JStr ''freelancer''\<rparr> 1 (JStr ''hi'') JUndefined
      hired1 = (Reply 403 (Error Permissao_negada), hired1)"
    by blast
  from sendMessage_outcomes [where user = "\<lparr>tok_id = 1, tok_role = JStr ''client''\<rparr>"
      and jobId = 1 and st = job1 and content = "JStr ''hi''" and receiverId = JUndefined] o
  have 2: "sendMessage \<lparr>tok_id = 1, tok_role = JStr ''client''\<rparr> 1 (JStr ''hi'') JUndefined job1 =
     (Reply 400 (Error O_job_ainda_nao_foi_aceito_por_um_freelancer), job1)"
    by simp
  from sendMessage_outcomes [where user = "\<lparr>tok_id = 1, tok_role = JStr ''client''\<rparr>"
      and jobId = 1 and st = hired1 and content = "JStr ''hi''" and receiverId = JUndefined] c
  have 3: "sendMessage \<lparr>tok_id = 1, tok_role = JStr ''client''\<rparr> 1 (JStr ''hi'') JUndefined
      hired1 =
     (Reply 201 (Message Mensagem_enviada),
      hired1\<lparr>messages := messages hired1 @
               [\<lparr>message_id = next_message_id hired1, message_job_id = 1,
                 message_sender_id = 1, message_receiver_id = 2,
                 message_content = JStr ''hi''\<rparr>],
             next_message_id := Suc (next_message_id hired1)\<rparr>)"
    by simp
  from sendMessage_outcomes [where user = "\<lparr>tok_id = 2, tok_role = JStr ''freelancer''\<rparr>"
      and jobId = 1 and st = hired1 and content = "JStr ''ok''" and receiverId = JUndefined] f
  have 4: "sendMessage \<lparr>tok_id = 2, tok_role = JStr ''freelancer''\<rparr> 1 (JStr ''ok'') JUndefined
      hired1 =
     (Reply 201 (Message Mensagem_enviada),
      hired1\<lparr>messages := messages hired1 @
               [\<lparr>message_id = next_message_id hired1, message_job_id = 1,
                 message_sender_id = 2, message_receiver_id = 1,
                 message_content = JStr ''ok''\<rparr>],
             next_message_id := Suc (next_message_id hired1)\<rparr>)"
    by simp
  from 1 2 3 4 show ?thesis
    by (simp add: hired1_eq init_def)
qed

lemma sendMessage_try_receiverId:
  "sendMessage_try user jobId content receiverId st =
     sendMessage_try user jobId content receiverId' st"
  by (simp add: sendMessage_try_def)

lemma sendMessage_new_message:
  assumes "m \<in> set (messages (snd (sendMessage user jobId content receiverId st)))"
    and "m \<notin> set (messages st)"
  shows "message_sender_id m = tok_id user \<and> message_job_id m = jobId \<and>
         (\<exists>j \<in> set (jobs st). job_id j = jobId \<and>
            ((job_client_id j = tok_id user \<and>
              job_freelancer_id j = Some (message_receiver_id m)) \<or>
             (job_freelancer_id j = Some (tok_id user) \<and>
              message_receiver_id m = job_client_id j)))"
proof (cases "filter (\<lambda>j. job_id j = jobId \<and>
      (job_client_id j = tok_id user \<or> job_freelancer_id j = Some (tok_id user))) (jobs st)")
  case Nil
  then have "snd (sendMessage user jobId content receiverId st) = st"
    by (simp add: sendMessage_def sendMessage_try_def)
  with assms show ?thesis by simp
next
  case (Cons job0 rest)
  note row = first_row_holds [OF Cons]
  show ?thesis
  proof (cases "job_freelancer_id job0")
    case None
    from sendMessage_no_freelancer [OF Cons None] assms show ?thesis by simp
  next
    case (Some freelancer)
    show ?thesis
    proof (cases "tok_id user = job_client_id job0")
      case True
      with Cons Some assms have "m = \<lparr>message_id = next_message_id st, message_job_id = jobId,
          message_sender_id = tok_id user, message_receiver_id = freelancer,
          message_content = content\<rparr>"
        by (auto simp: sendMessage_def sendMessage_try_def Let_def
                 split: if_splits sum.splits)
      with row True Some show ?thesis by auto
    next
      case False
      with Cons Some assms have "m = \<lparr>message_id = next_message_id st, message_job_id = jobId,
          message_sender_id = tok_id user, message_receiver_id = job_client_id job0,
          message_content = content\<rparr>"
        by (auto simp: sendMessage_def sendMessage_try_def Let_def
                 split: if_splits sum.splits)
      with row False Some show ?thesis by auto
    qed
  qed
qed

text \<open>
  Claim C9. The \<open>receiverId\<close> of the request body has no effect: two requests that differ
  in it alone give the same response and the same state. Whatever message a request adds
  is from the caller, for the job that was named, and to the other participant of that
  job as the jobs table has it: to its freelancer when the caller is its client, to its
  client when the caller is its freelancer.
\<close>

theorem sendMessage_ignores_receiverId:
  "sendMessage user jobId content receiverId st =
     sendMessage user jobId content receiverId' st \<and>
   (\<forall>m. m \<in> set (messages (snd (sendMessage user jobId content receiverId st))) \<and>
        m \<notin> set (messages st) \<longrightarrow>
        message_sender_id m = tok_id user \<and> message_job_id m = jobId \<and>
        (\<exists>j \<in> set (jobs st). job_id j = jobId \<and>
           ((job_client_id j = tok_id user \<and>
             job_freelancer_id j = Some (message_receiver_id m)) \<or>
            (job_freelancer_id j = Some (tok_id user) \<and>
             message_receiver_id m = job_client_id j))))"
proof -
  have a: "sendMessage user jobId content receiverId st =
     sendMessage user jobId content receiverId' st"
    by (simp add: sendMessage_def sendMessage_try_receiverId [of _ _ _ receiverId _ receiverId'])
  have b: "\<forall>m. m \<in> set (messages (snd (sendMessage user jobId content receiverId st))) \<and>
        m \<notin> set (messages st) \<longrightarrow>
        message_sender_id m = tok_id user \<and> message_job_id m = jobId \<and>
        (\<exists>j \<in> set (jobs st). job_id j = jobId \<and>
           ((job_client_id j = tok_id user \<and>
             job_freelancer_id j = Some (message_receiver_id m)) \<or>
            (job_freelancer_id j = Some (tok_id user) \<and>
             message_receiver_id m = job_client_id j)))"
    using sendMessage_new_message by blast
  show ?thesis by (rule conjI [OF a b])
qed

theorem sendMessage_ignores_receiverId_witness:
  "sendMessage \<lparr>tok_id = 1, tok_role = JStr ''client''\<rparr> 1 (JStr ''hi'') (JNum 99) hired1 =
     sendMessage \<lparr>tok_id = 1, tok_role = JStr ''client''\<rparr> 1 (JStr ''hi'') JUndefined hired1 \<and>
   map message_receiver_id (messages (snd (sendMessage \<lparr>tok_id = 1, tok_role = JStr ''client''\<rparr>
     1 (JStr ''hi'') (JNum 99) hired1))) = [2]"
proof -
  from sendMessage_ignores_receiverId [where user = "\<lparr>tok_id = 1, tok_role = JStr ''client''\<rparr>"
      and jobId = 1 and content = "JStr ''hi''" and receiverId = "JNum 99"
      and receiverId' = JUndefined and st = hired1]
  have "sendMessage \<lparr>tok_id = 1, tok_role = JStr ''client''\<rparr> 1 (JStr ''hi'') (JNum 99) hired1 =
     sendMessage \<lparr>tok_id = 1, tok_role = JStr ''client''\<rparr> 1 (JStr ''hi'') JUndefined hired1"
    by (rule conjunct1)
  then show ?thesis
    by (simp add: sendMessage_def sendMessage_try_def execute_def hired1_eq init_def)
qed

section \<open>Profile updates\<close>

lemma updateProfile_nothing_supplied:
  assumes "bio = JUndefined \<or> bio = JStr [] \<or> bio = JNull"
  shows "updateProfile upload_stream user bio None st =
           (Reply 200 (Message_avatar Nenhum_dado_fornecido_para_atualizacao JNull), st)"
  using assms by (auto simp: updateProfile_def profile_try_def)

lemma updateProfile_bio_only:
  assumes "bio \<noteq> JUndefined" "bio \<noteq> JStr []" "bio \<noteq> JNull"
  shows "updateProfile upload_stream user bio None st =
           (Reply 200 (Message_avatar Perfil_atualizado_com_sucesso JNull),
            st\<lparr>users := map (\<lambda>u. if user_id u = tok_id user then u\<lparr>user_bio := bio\<rparr> else u)
                            (users st)\<rparr>)"
  using assms by (simp add: updateProfile_def profile_try_def execute_def)

lemma updateProfile_avatar:
  assumes "upload_stream buffer = Inr (JStr url)"
  shows "updateProfile upload_stream user bio (Some buffer) st =
           (Reply 200 (Message_avatar Perfil_atualizado_com_sucesso (JStr url)),
            st\<lparr>users := map (\<lambda>u. if user_id u = tok_id user
                                  then u\<lparr>user_bio := (if bio = JStr [] \<or> bio = JUndefined
                                                       then JNull else bio),
                                         user_avatar_url := JStr url\<rparr>
                                  else u) (users st),
                cloudinary := cloudinary st @ [buffer]\<rparr>)"
  using assms
  by (simp add: updateProfile_def profile_try_def execute_def uploadToCloudinary_def)

lemma updateProfile_avatar_only_overwrites_bio:
  assumes "upload_stream buffer = Inr (JStr url)"
    and "u \<in> set (users st)" and "user_id u = tok_id user"
  shows "u\<lparr>user_bio := JNull, user_avatar_url := JStr url\<rparr>
           \<in> set (users (snd (updateProfile upload_stream user JUndefined (Some buffer) st)))"
  using assms(2,3) unfolding updateProfile_avatar [of upload_stream buffer url, OF assms(1)]
  by (auto simp: image_iff intro!: bexI [of _ u])

lemma profiled1_eq:
  "profiled1 = registered1\<lparr>users := [\<lparr>user_id = 1, user_name = JStr ''Ana'',
       user_email = JStr ''ana@x.org'', user_password = ''#pw'',
       user_role = JStr ''freelancer'', user_bio = JStr ''designer'',
       user_avatar_url = JNull\<rparr>]\<rparr>"
  by (simp add: profiled1_def updateProfile_bio_only registered1_eq init_def)

text \<open>
  Claim C7. An update with no bio and no avatar file is answered as a success that
  changes nothing, storage included (\<open>updateProfile_nothing_supplied\<close>); an avatar file
  that the storage accepts has its URL stored in \<open>avatar_url\<close> (\<open>updateProfile_avatar\<close>);
  a bio alone leaves \<open>avatar_url\<close> as it was (\<open>updateProfile_bio_only\<close>). An avatar alone,
  however, does not leave the bio as it was: the query always sets \<open>bio\<close>, to NULL when
  none was supplied (\<open>updateProfile_avatar_only_overwrites_bio\<close>). Here Ana, whose bio is
  \<open>designer\<close>, uploads an avatar and nothing else: the answer is 200 with the URL, and her
  bio is NULL afterwards.
\<close>

theorem updateProfile_avatar_only_clears_bio:
  "map user_bio (users profiled1) = [JStr ''designer''] \<and>
   fst (updateProfile uploadA \<lparr>tok_id = 1, tok_role = JStr ''freelancer''\<rparr> JUndefined
          (Some ''png'') profiled1) =
     Reply 200 (Message_avatar Perfil_atualizado_com_sucesso (JStr ''https://cdn/a.png'')) \<and>
   map user_bio (users (snd (updateProfile uploadA \<lparr>tok_id = 1, tok_role = JStr ''freelancer''\<rparr>
          JUndefined (Some ''png'') profiled1))) = [JNull] \<and>
   map user_avatar_url (users (snd (updateProfile uploadA
          \<lparr>tok_id = 1, tok_role = JStr ''freelancer''\<rparr>
          JUndefined (Some ''png'') profiled1))) = [JStr ''https://cdn/a.png'']"
proof -
  have u: "uploadA ''png'' = Inr (JStr ''https://cdn/a.png'')"
    by (simp add: uploadA_def)
  show ?thesis
    unfolding updateProfile_avatar [of uploadA "''png''" "''https://cdn/a.png''", OF u]
    by (simp add: profiled1_eq registered1_eq init_def)
qed

end
